theory Spec2Isabelle
  imports Complex_Main "HOL-Library.Word" "HOL-Library.Multiset"
begin

unbundle bit_operations_syntax

section \<open>Values shared by all components\<close>

text \<open>
  A \<open>Uint8Array\<close> is a list of 8-bit words. JavaScript numbers that hold byte values,
  element sizes, offsets and counters are modelled as \<open>int\<close> (or \<open>nat\<close> where the
  program only ever indexes with them); arithmetic is exact, that is, the rounding of
  IEEE doubles above \<open>2 ^ 53\<close> is not part of the model. A thrown exception is the
  \<open>Inl\<close> branch of a sum, carrying the class of the exception and its message;
  \<open>FetchRejected\<close> is whatever the injected \<open>fetch\<close> rejects with. \<open>Unmodelled\<close> is
  not an exception of the program: it marks the executions that the model does not
  follow, which are those where a \<open>NaN\<close> is used as a file position and those that fetch
  batches with more than one concurrent worker.
\<close>

type_synonym byte = "8 word"
type_synonym bytes = "byte list"

datatype js_error =
    Error string
  | RangeNotSupportedError string
  | MkvParseError string
  | FetchRejected string
  | Unmodelled string

section \<open>ebml/vint.ts: variable-length integers\<close>

record VintResult =
  vint_value :: int
  vint_length :: nat

text \<open>\<open>vintWidth\<close>: the position of the first set bit of the leading byte.\<close>

definition vintWidth :: "byte \<Rightarrow> nat" where
  "vintWidth firstByte =
     (if firstByte AND 0x80 \<noteq> 0 then 1
      else if firstByte AND 0x40 \<noteq> 0 then 2
      else if firstByte AND 0x20 \<noteq> 0 then 3
      else if firstByte AND 0x10 \<noteq> 0 then 4
      else if firstByte AND 0x08 \<noteq> 0 then 5
      else if firstByte AND 0x04 \<noteq> 0 then 6
      else if firstByte AND 0x02 \<noteq> 0 then 7
      else if firstByte AND 0x01 \<noteq> 0 then 8
      else 1)"

text \<open>
  The loop \<open>for (i = 1; i < width; i++) value = value * 256 + data[offset + i]\<close>,
  run over the bytes \<open>data[offset + 1 .. offset + width - 1]\<close>.
\<close>

fun vintLoop :: "int \<Rightarrow> bytes \<Rightarrow> int" where
  "vintLoop v [] = v"
| "vintLoop v (b # bs) = vintLoop (v * 256 + uint b) bs"

text \<open>The same loop in \<open>readDataSize\<close>, which also clears \<open>allOnes\<close> at a byte that is not 0xFF.\<close>

fun sizeLoop :: "int \<Rightarrow> bool \<Rightarrow> bytes \<Rightarrow> int \<times> bool" where
  "sizeLoop v allOnes [] = (v, allOnes)"
| "sizeLoop v allOnes (b # bs) =
     sizeLoop (v * 256 + uint b) (if b \<noteq> 0xFF then False else allOnes) bs"

definition vintTail :: "bytes \<Rightarrow> nat \<Rightarrow> nat \<Rightarrow> bytes" where
  "vintTail data offset width = take (width - 1) (drop (offset + 1) data)"

definition vintMask :: "nat \<Rightarrow> byte" where
  "vintMask width = push_bit (8 - width) 1 - 1"

definition readElementId :: "bytes \<Rightarrow> nat \<Rightarrow> js_error + VintResult" where
  "readElementId data offset =
     (if offset \<ge> length data then Inl (Error ''Unexpected end of data reading element ID'')
      else
        let firstByte = data ! offset in
        if firstByte = 0 then Inl (Error ''Invalid VINT: leading byte is 0'')
        else
          let width = vintWidth firstByte in
          if offset + width > length data
          then Inl (Error ''Unexpected end of data reading element ID'')
          else Inr \<lparr>vint_value = vintLoop (uint firstByte) (vintTail data offset width),
                    vint_length = width\<rparr>)"

definition readDataSize :: "bytes \<Rightarrow> nat \<Rightarrow> js_error + VintResult" where
  "readDataSize data offset =
     (if offset \<ge> length data then Inl (Error ''Unexpected end of data reading data size'')
      else
        let firstByte = data ! offset in
        if firstByte = 0 then Inl (Error ''Invalid VINT: leading byte is 0'')
        else
          let width = vintWidth firstByte in
          if offset + width > length data
          then Inl (Error ''Unexpected end of data reading data size'')
          else
            let mask = vintMask width;
                (v, allOnes) = sizeLoop (uint (firstByte AND mask)) (firstByte AND mask = mask)
                                 (vintTail data offset width)
            in if allOnes then Inr \<lparr>vint_value = - 1, vint_length = width\<rparr>
               else Inr \<lparr>vint_value = v, vint_length = width\<rparr>)"

definition readTrackNumber :: "bytes \<Rightarrow> nat \<Rightarrow> js_error + VintResult" where
  "readTrackNumber data offset =
     (if offset \<ge> length data then Inl (Error ''Unexpected end of data reading track number'')
      else
        let firstByte = data ! offset in
        if firstByte = 0 then Inl (Error ''Invalid VINT: leading byte is 0'')
        else
          let width = vintWidth firstByte in
          if offset + width > length data
          then Inl (Error ''Unexpected end of data reading track number'')
          else
            let mask = vintMask width
            in Inr \<lparr>vint_value = vintLoop (uint (firstByte AND mask)) (vintTail data offset width),
                      vint_length = width\<rparr>)"

section \<open>JavaScript built-ins used by the program\<close>

text \<open>
  \<open>Array.prototype.slice\<close> and \<open>TypedArray.prototype.subarray\<close> take relative indices:
  a negative index counts from the end, and both ends are clamped to the array.
\<close>

definition relIndex :: "int \<Rightarrow> nat \<Rightarrow> nat" where
  "relIndex k len = (if k < 0 then nat (max (int len + k) 0) else nat (min k (int len)))"

definition slice :: "'a list \<Rightarrow> int \<Rightarrow> int \<Rightarrow> 'a list" where
  "slice xs start stop =
     (let a = relIndex start (length xs); b = relIndex stop (length xs)
      in take (b - a) (drop a xs))"

definition sliceFrom :: "'a list \<Rightarrow> int \<Rightarrow> 'a list" where
  "sliceFrom xs start = slice xs start (int (length xs))"

text \<open>\<open>data[i]\<close> on a \<open>Uint8Array\<close>: \<open>undefined\<close> (here \<open>None\<close>) past the end.\<close>

definition byteAt :: "bytes \<Rightarrow> nat \<Rightarrow> int option" where
  "byteAt data i = (if i < length data then Some (uint (data ! i)) else None)"

text \<open>
  A number that may be \<open>NaN\<close>. \<open>NaN\<close> arises where the program adds \<open>undefined\<close> to a
  number or parses a string that does not start with digits; it then flows through the
  arithmetic. Numbers are exact reals.
\<close>

datatype jsnum = NaN | Num real

fun js_add :: "jsnum \<Rightarrow> jsnum \<Rightarrow> jsnum" where
  "js_add (Num a) (Num b) = Num (a + b)"
| "js_add _ _ = NaN"

fun js_sub :: "jsnum \<Rightarrow> jsnum \<Rightarrow> jsnum" where
  "js_sub (Num a) (Num b) = Num (a - b)"
| "js_sub _ _ = NaN"

fun js_mul :: "jsnum \<Rightarrow> jsnum \<Rightarrow> jsnum" where
  "js_mul (Num a) (Num b) = Num (a * b)"
| "js_mul _ _ = NaN"

text \<open>An integer-valued number that may be \<open>NaN\<close> (\<open>None\<close>), as a \<open>jsnum\<close>.\<close>

fun num :: "int option \<Rightarrow> jsnum" where
  "num None = NaN"
| "num (Some i) = Num (real_of_int i)"


text \<open>\<open>String(n)\<close> for an integer \<open>n\<close> (below \<open>10 ^ 21\<close> in magnitude): its decimal digits.\<close>

definition digitChar :: "nat \<Rightarrow> char" where
  "digitChar d = ''0123456789'' ! d"

function showNat :: "nat \<Rightarrow> string" where
  "showNat n = (if n < 10 then [digitChar n] else showNat (n div 10) @ [digitChar (n mod 10)])"
  by pat_completeness auto
termination
  by (relation "measure id") auto

declare showNat.simps [simp del]

definition showInt :: "int \<Rightarrow> string" where
  "showInt i = (if i < 0 then CHR ''-'' # showNat (nat (- i)) else showNat (nat i))"

text \<open>
  Strings are \<open>string\<close>: a character is the code unit \<open>U+0000\<close> to \<open>U+00FF\<close>. The
  platform's \<open>TextDecoder\<close> and \<open>TextEncoder\<close> are parameters of the model.
\<close>

record Platform =
  utf8Decode :: "bytes \<Rightarrow> string"
  utf8Encode :: "string \<Rightarrow> bytes"

definition isDigit :: "char \<Rightarrow> bool" where
  "isDigit c = (c \<in> set ''0123456789'')"

text \<open>White space of \<open>\s\<close>, \<open>trimEnd\<close> and \<open>parseInt\<close>: TAB, LF, VT, FF, CR, SP, NBSP.\<close>

definition isSpace :: "char \<Rightarrow> bool" where
  "isSpace c = ((of_char c :: nat) \<in> {9, 10, 11, 12, 13, 32, 160})"

definition digitValue :: "char \<Rightarrow> int" where
  "digitValue c = int (of_char c) - 48"

text \<open>The value of a string of decimal digits.\<close>

definition digitsValue :: "string \<Rightarrow> int" where
  "digitsValue ds = foldl (\<lambda>v c. v * 10 + digitValue c) 0 ds"

text \<open>\<open>String.prototype.toLowerCase\<close> on code units up to \<open>U+00FF\<close>.\<close>

definition lowerChar :: "char \<Rightarrow> char" where
  "lowerChar c =
     (let n = (of_char c :: nat)
      in if (65 \<le> n \<and> n \<le> 90) \<or> (192 \<le> n \<and> n \<le> 222 \<and> n \<noteq> 215)
         then Char (digit0 c) (digit1 c) (digit2 c) (digit3 c) (digit4 c) True (digit6 c) (digit7 c)
         else c)"

definition toLowerCase :: "string \<Rightarrow> string" where
  "toLowerCase s = map lowerChar s"

section \<open>ebml/parser.ts\<close>

record EbmlElement =
  el_id :: int
  dataSize :: int
  headerOffset :: nat
  dataOffset :: nat
  unknownSize :: bool

definition parseElementHeader :: "bytes \<Rightarrow> nat \<Rightarrow> js_error + EbmlElement" where
  "parseElementHeader data offset =
     (case readElementId data offset of
        Inl e \<Rightarrow> Inl e
      | Inr idr \<Rightarrow>
          (case readDataSize data (offset + vint_length idr) of
             Inl e \<Rightarrow> Inl e
           | Inr sz \<Rightarrow>
               Inr \<lparr>el_id = vint_value idr,
                    dataSize = (if vint_value sz = - 1 then - 1 else vint_value sz),
                    headerOffset = offset,
                    dataOffset = offset + vint_length idr + vint_length sz,
                    unknownSize = (vint_value sz = - 1)\<rparr>))"

lemma vintWidth_pos: "0 < vintWidth b"
  by (simp add: vintWidth_def)

lemma readElementId_length_pos: "readElementId data offset = Inr r \<Longrightarrow> 0 < vint_length r"
  by (auto simp: readElementId_def Let_def vintWidth_pos split: if_splits)

lemma parseElementHeader_advances:
  "parseElementHeader data offset = Inr e \<Longrightarrow> offset < dataOffset e"
  by (auto simp: parseElementHeader_def split: sum.splits dest: readElementId_length_pos)

text \<open>
  The generator \<open>iterateChildren\<close>, as the list of the elements it yields: it stops at the
  end of the parent, where fewer than two bytes are left, at a header that does not
  parse, and after an element of unknown size.
\<close>

function iterateChildrenFrom :: "bytes \<Rightarrow> int \<Rightarrow> nat \<Rightarrow> EbmlElement list" where
  "iterateChildrenFrom data end offset =
     (if int offset < end then
        (if offset + 2 > length data then []
         else
           (case parseElementHeader data offset of
              Inl e \<Rightarrow> []
            | Inr element \<Rightarrow>
                element #
                (if unknownSize element then []
                 else iterateChildrenFrom data end (dataOffset element + nat (dataSize element)))))
      else [])"
  by pat_completeness auto
termination
  by (relation "measure (\<lambda>(data, end, offset). nat (end - int offset))")
     (auto dest!: parseElementHeader_advances)

definition iterateChildren :: "bytes \<Rightarrow> nat \<Rightarrow> int \<Rightarrow> EbmlElement list" where
  "iterateChildren data parentDataOffset parentDataSize =
     iterateChildrenFrom data (int parentDataOffset + parentDataSize) parentDataOffset"

text \<open>
  \<open>readUint\<close>: \<open>value = value * 256 + data[offset + i]\<close> for \<open>i < length\<close>. A read past
  the end of the buffer adds \<open>undefined\<close>, and the result is \<open>NaN\<close> (\<open>None\<close>).
\<close>

fun readUintLoop :: "bytes \<Rightarrow> nat \<Rightarrow> nat \<Rightarrow> int option \<Rightarrow> int option" where
  "readUintLoop data i 0 v = v"
| "readUintLoop data i (Suc n) v =
     readUintLoop data (Suc i) n
       (case (v, byteAt data i) of (Some a, Some b) \<Rightarrow> Some (a * 256 + b) | _ \<Rightarrow> None)"

definition readUint :: "bytes \<Rightarrow> nat \<Rightarrow> int \<Rightarrow> int option" where
  "readUint data offset len = readUintLoop data offset (nat len) (Some 0)"

text \<open>\<open>readUtf8\<close>: the loop \<open>while (end > offset && data[end - 1] === 0) end--\<close>, then the decoder.\<close>

fun trimNulEnd :: "bytes \<Rightarrow> nat \<Rightarrow> nat \<Rightarrow> nat" where
  "trimNulEnd data offset 0 = 0"
| "trimNulEnd data offset (Suc e) =
     (if Suc e > offset \<and> byteAt data e = Some 0 then trimNulEnd data offset e else Suc e)"

definition readUtf8 :: "Platform \<Rightarrow> bytes \<Rightarrow> nat \<Rightarrow> int \<Rightarrow> string" where
  "readUtf8 P data offset len =
     (let end = int offset + len;
          end' = (if end \<le> int offset then end else int (trimNulEnd data offset (nat end)))
      in utf8Decode P (slice data (int offset) end'))"

definition readBinary :: "bytes \<Rightarrow> nat \<Rightarrow> int \<Rightarrow> bytes" where
  "readBinary data offset len = slice data (int offset) (int offset + len)"

section \<open>io/range-reader.ts\<close>

text \<open>
  The injected \<open>fetch\<close>. A request carries the URL, the method (when the caller sets
  one), the caller's custom headers, and the \<open>Range\<close> header \<open>bytes=a-b\<close> as the pair
  \<open>(a, b)\<close>. A response carries the status, the \<open>Content-Range\<close> header and the body; a
  fetch that rejects is \<open>Inl\<close> of its reason.
\<close>

record Request =
  req_url :: string
  req_method :: "string option"
  req_headers :: "(string \<times> string) list"
  req_range :: "(int \<times> int) option"

record Response =
  status :: int
  contentRange :: "string option"
  body :: bytes

type_synonym fetch = "Request \<Rightarrow> string + Response"

record RangeReader =
  url :: string
  fileSize :: int
  fullBuffer :: "bytes option"
  allowFullDownload :: bool
  customHeaders :: "(string \<times> string) list"
  bytesDownloaded :: int
  requestCount :: int
  cacheOffset :: int
  cacheBuffer :: "bytes option"

definition READ_AHEAD_SIZE :: int where
  "READ_AHEAD_SIZE = 32 * 1024"

text \<open>The constructor: \<open>new RangeReader(url, options)\<close>.\<close>

definition newRangeReader :: "string \<Rightarrow> bool option \<Rightarrow> (string \<times> string) list option \<Rightarrow> RangeReader" where
  "newRangeReader u allowFull hdrs =
     \<lparr>url = u, fileSize = 0, fullBuffer = None,
      allowFullDownload = (case allowFull of None \<Rightarrow> False | Some b \<Rightarrow> b),
      customHeaders = (case hdrs of None \<Rightarrow> [] | Some h \<Rightarrow> h),
      bytesDownloaded = 0, requestCount = 0, cacheOffset = - 1, cacheBuffer = None\<rparr>"

text \<open>errors.ts: the message of \<open>RangeNotSupportedError\<close> carries the URL.\<close>

definition newRangeNotSupportedError :: "string \<Rightarrow> js_error" where
  "newRangeNotSupportedError u =
     RangeNotSupportedError
       (''The server at '' @ [CHR 0x22] @ u @ [CHR 0x22] @
        '' does not support HTTP Range requests. '' @
        ''Range requests are required for efficient subtitle extraction. '' @
        ''To download the full file instead, pass { allowFullDownload: true } in options.'')"

text \<open>
  \<open>contentRange.match(/bytes\s+\d+-\d+\/(\d+)/)\<close>: the first group of the leftmost match.
  Every repeated class is followed by a character outside it, so the greedy match is the
  only one at a position.
\<close>

definition matchContentRangeHere :: "string \<Rightarrow> string option" where
  "matchContentRangeHere s =
     (if take 5 s \<noteq> ''bytes'' then None
      else
        let s1 = drop 5 s; s2 = dropWhile isSpace s1 in
        if takeWhile isSpace s1 = [] then None
        else
          let s3 = dropWhile isDigit s2 in
          if takeWhile isDigit s2 = [] then None
          else
            (case s3 of
               [] \<Rightarrow> None
             | c # s4 \<Rightarrow>
                 if c \<noteq> CHR ''-'' then None
                 else
                   let s5 = dropWhile isDigit s4 in
                   if takeWhile isDigit s4 = [] then None
                   else
                     (case s5 of
                        [] \<Rightarrow> None
                      | d # s6 \<Rightarrow>
                          if d \<noteq> CHR ''/'' then None
                          else if takeWhile isDigit s6 = [] then None
                          else Some (takeWhile isDigit s6))))"

fun matchContentRange :: "string \<Rightarrow> string option" where
  "matchContentRange [] = None"
| "matchContentRange (c # cs) =
     (case matchContentRangeHere (c # cs) of
        Some g \<Rightarrow> Some g
      | None \<Rightarrow> matchContentRange cs)"

text \<open>
  \<open>init\<close>: the probe for the first 256 KiB. The reader is returned with the result, since
  its counters are updated before an exception leaves the method.
\<close>

definition init :: "fetch \<Rightarrow> RangeReader \<Rightarrow> (js_error + unit) \<times> RangeReader" where
  "init fetchFn r =
     (let probeSize = 256 * 1024;
          r1 = r\<lparr>requestCount := requestCount r + 1\<rparr>
      in case fetchFn \<lparr>req_url = url r1, req_method = Some ''GET'',
                        req_headers = customHeaders r1, req_range = Some (0, probeSize - 1)\<rparr> of
           Inl e \<Rightarrow> (Inl (FetchRejected e), r1)
         | Inr response \<Rightarrow>
             if status response = 206 then
               let r2 = (case contentRange response of
                           None \<Rightarrow> r1
                         | Some cr \<Rightarrow>
                             (case matchContentRange cr of
                                None \<Rightarrow> r1
                              | Some g \<Rightarrow> r1\<lparr>fileSize := digitsValue g\<rparr>));
                   data = body response
               in (Inr (),
                   r2\<lparr>bytesDownloaded := bytesDownloaded r2 + int (length data),
                      cacheOffset := 0, cacheBuffer := Some data\<rparr>)
             else if \<not> allowFullDownload r1 then (Inl (newRangeNotSupportedError (url r1)), r1)
             else if status response = 200 then
               (Inr (),
                r1\<lparr>fullBuffer := Some (body response),
                   fileSize := int (length (body response)),
                   bytesDownloaded := int (length (body response))\<rparr>)
             else
               let r2 = r1\<lparr>requestCount := requestCount r1 + 1\<rparr>
               in case fetchFn \<lparr>req_url = url r2, req_method = None,
                                 req_headers = customHeaders r2, req_range = None\<rparr> of
                    Inl e \<Rightarrow> (Inl (FetchRejected e), r2)
                  | Inr fullResponse \<Rightarrow>
                      (Inr (),
                       r2\<lparr>fullBuffer := Some (body fullResponse),
                          fileSize := int (length (body fullResponse)),
                          bytesDownloaded := int (length (body fullResponse))\<rparr>))"

text \<open>\<open>read(offset, length)\<close>.\<close>

definition read :: "fetch \<Rightarrow> RangeReader \<Rightarrow> int \<Rightarrow> int \<Rightarrow> (js_error + bytes) \<times> RangeReader" where
  "read fetchFn r offset len =
     (case fullBuffer r of
        Some full \<Rightarrow> (Inr (slice full offset (offset + len)), r)
      | None \<Rightarrow>
          (case (case cacheBuffer r of
                   Some cache \<Rightarrow>
                     if cacheOffset r \<ge> 0 \<and> offset \<ge> cacheOffset r
                        \<and> offset + len \<le> cacheOffset r + int (length cache)
                     then Some (slice cache (offset - cacheOffset r) (offset - cacheOffset r + len))
                     else None
                 | None \<Rightarrow> None) of
             Some hit \<Rightarrow> (Inr hit, r)
           | None \<Rightarrow>
               let r1 = r\<lparr>requestCount := requestCount r + 1\<rparr>;
                   readAheadLength = max len READ_AHEAD_SIZE;
                   end = min (offset + readAheadLength - 1) (fileSize r1 - 1)
               in case fetchFn \<lparr>req_url = url r1, req_method = None,
                                 req_headers = customHeaders r1, req_range = Some (offset, end)\<rparr> of
                    Inl e \<Rightarrow> (Inl (FetchRejected e), r1)
                  | Inr response \<Rightarrow>
                      if status response \<noteq> 206 \<and> status response \<noteq> 200 then
                        (Inl (Error (''HTTP '' @ showInt (status response) @ '' fetching range '' @
                                     showInt offset @ ''-'' @ showInt end)), r1)
                      else
                        let data = body response
                        in (Inr (slice data 0 (min len (int (length data)))),
                            r1\<lparr>bytesDownloaded := bytesDownloaded r1 + int (length data),
                               cacheOffset := offset, cacheBuffer := Some data\<rparr>)))"


section \<open>ebml/ids.ts\<close>

definition EBML_HEADER :: int where "EBML_HEADER = 0x1A45DFA3"
definition SEGMENT :: int where "SEGMENT = 0x18538067"
definition SEEK_HEAD :: int where "SEEK_HEAD = 0x114D9B74"
definition SEEK :: int where "SEEK = 0x4DBB"
definition SEEK_ID :: int where "SEEK_ID = 0x53AB"
definition SEEK_POSITION :: int where "SEEK_POSITION = 0x53AC"
definition INFO :: int where "INFO = 0x1549A966"
definition TIMESTAMP_SCALE :: int where "TIMESTAMP_SCALE = 0x2AD7B1"
definition TRACKS :: int where "TRACKS = 0x1654AE6B"
definition TRACK_ENTRY :: int where "TRACK_ENTRY = 0xAE"
definition TRACK_NUMBER :: int where "TRACK_NUMBER = 0xD7"
definition TRACK_TYPE :: int where "TRACK_TYPE = 0x83"
definition CODEC_ID :: int where "CODEC_ID = 0x86"
definition CODEC_PRIVATE :: int where "CODEC_PRIVATE = 0x63A2"
definition LANGUAGE :: int where "LANGUAGE = 0x22B59C"
definition LANGUAGE_BCP47 :: int where "LANGUAGE_BCP47 = 0x22B59D"
definition NAME :: int where "NAME = 0x536E"
definition DEFAULT_DURATION :: int where "DEFAULT_DURATION = 0x23E383"
definition ATTACHMENTS :: int where "ATTACHMENTS = 0x1941A469"
definition ATTACHED_FILE :: int where "ATTACHED_FILE = 0x61A7"
definition FILE_NAME :: int where "FILE_NAME = 0x466E"
definition FILE_MIME_TYPE :: int where "FILE_MIME_TYPE = 0x4660"
definition FILE_DATA :: int where "FILE_DATA = 0x465C"
definition CLUSTER :: int where "CLUSTER = 0x1F43B675"
definition CLUSTER_TIMESTAMP :: int where "CLUSTER_TIMESTAMP = 0xE7"
definition SIMPLE_BLOCK :: int where "SIMPLE_BLOCK = 0xA3"
definition BLOCK_GROUP :: int where "BLOCK_GROUP = 0xA0"
definition BLOCK :: int where "BLOCK = 0xA1"
definition BLOCK_DURATION :: int where "BLOCK_DURATION = 0x9B"
definition BLOCK_ADDITIONS :: int where "BLOCK_ADDITIONS = 0x75A1"
definition BLOCK_MORE :: int where "BLOCK_MORE = 0xA6"
definition BLOCK_ADDITIONAL :: int where "BLOCK_ADDITIONAL = 0xA5"
definition CUES :: int where "CUES = 0x1C53BB6B"
definition CUE_POINT :: int where "CUE_POINT = 0xBB"
definition CUE_TIME :: int where "CUE_TIME = 0xB3"
definition CUE_TRACK_POSITIONS :: int where "CUE_TRACK_POSITIONS = 0xB7"
definition CUE_TRACK :: int where "CUE_TRACK = 0xF7"
definition CUE_CLUSTER_POSITION :: int where "CUE_CLUSTER_POSITION = 0xF1"
definition CUE_RELATIVE_POSITION :: int where "CUE_RELATIVE_POSITION = 0xF0"
definition CHAPTERS :: int where "CHAPTERS = 0x1043A770"
definition TAGS :: int where "TAGS = 0x1254C367"

definition SEGMENT_LEVEL_IDS :: "int list" where
  "SEGMENT_LEVEL_IDS = [SEEK_HEAD, INFO, TRACKS, ATTACHMENTS, CLUSTER, CUES, CHAPTERS, TAGS]"

section \<open>mkv/attachments.ts\<close>

record FontFile =
  font_name :: string
  font_data :: bytes

definition FONT_MIME_TYPES :: "string list" where
  "FONT_MIME_TYPES =
     [''font/ttf'', ''font/otf'', ''font/woff'', ''font/woff2'', ''font/sfnt'',
      ''application/font-ttf'', ''application/font-otf'', ''application/font-woff'',
      ''application/font-woff2'', ''application/x-truetype-font'',
      ''application/vnd.ms-opentype'', ''application/font-sfnt'',
      ''application/x-font-ttf'', ''application/x-font-otf'']"

definition FONT_EXTENSIONS :: "string list" where
  "FONT_EXTENSIONS = [''.ttf'', ''.otf'', ''.woff'', ''.woff2'']"

text \<open>
  \<open>s.match(/\.[^.]+$/)?.[0]\<close>: the search tries every start position from the left; at a
  position the pattern matches when the character is a dot and the rest of the string is
  a non-empty run of characters other than a dot.
\<close>

fun matchExtension :: "string \<Rightarrow> string option" where
  "matchExtension [] = None"
| "matchExtension (c # cs) =
     (if c = CHR ''.'' \<and> cs \<noteq> [] \<and> list_all (\<lambda>d. d \<noteq> CHR ''.'') cs then Some (c # cs)
      else matchExtension cs)"

definition isFontFile :: "string \<Rightarrow> string \<Rightarrow> bool" where
  "isFontFile mimeType fileName =
     (if toLowerCase mimeType \<in> set FONT_MIME_TYPES then True
      else
        (case matchExtension (toLowerCase fileName) of
           Some ext \<Rightarrow> ext \<in> set FONT_EXTENSIONS
         | None \<Rightarrow> False))"

text \<open>The inner loop of \<open>parseAttachments\<close> over the children of one AttachedFile.\<close>

definition attachedFileFields ::
  "Platform \<Rightarrow> bytes \<Rightarrow> EbmlElement \<Rightarrow> string \<times> string \<times> bytes option" where
  "attachedFileFields P attData fileEl =
     foldl
       (\<lambda>(fileName, mimeType, fileData) child.
          if el_id child = FILE_NAME
          then (readUtf8 P attData (dataOffset child) (dataSize child), mimeType, fileData)
          else if el_id child = FILE_MIME_TYPE
          then (fileName, readUtf8 P attData (dataOffset child) (dataSize child), fileData)
          else if el_id child = FILE_DATA
          then (fileName, mimeType, Some (readBinary attData (dataOffset child) (dataSize child)))
          else (fileName, mimeType, fileData))
       ([], [], None)
       (iterateChildren attData (dataOffset fileEl) (dataSize fileEl))"

text \<open>\<open>if (fileData && isFontFile(mimeType, fileName)) fonts.push(...)\<close>.\<close>

fun keepFont :: "string \<times> string \<times> bytes option \<Rightarrow> FontFile list" where
  "keepFont (fileName, mimeType, Some fileData) =
     (if isFontFile mimeType fileName then [\<lparr>font_name = fileName, font_data = fileData\<rparr>] else [])"
| "keepFont (fileName, mimeType, None) = []"

definition parseAttachments ::
  "Platform \<Rightarrow> fetch \<Rightarrow> RangeReader \<Rightarrow> nat \<Rightarrow> int \<Rightarrow> (js_error + FontFile list) \<times> RangeReader" where
  "parseAttachments P fetchFn reader segmentDataOffset attachmentsPosition =
     (let absoluteOffset = int segmentDataOffset + attachmentsPosition
      in case read fetchFn reader absoluteOffset 12 of
           (Inl e, r1) \<Rightarrow> (Inl e, r1)
         | (Inr headerData, r1) \<Rightarrow>
             (case parseElementHeader headerData 0 of
                Inl e \<Rightarrow> (Inl e, r1)
              | Inr attEl \<Rightarrow>
                  let totalSize = int (dataOffset attEl) + dataSize attEl
                  in case read fetchFn r1 absoluteOffset totalSize of
                       (Inl e, r2) \<Rightarrow> (Inl e, r2)
                     | (Inr attData, r2) \<Rightarrow>
                         (Inr (concat
                                 (map (\<lambda>fileEl.
                                         if el_id fileEl \<noteq> ATTACHED_FILE then []
                                         else keepFont (attachedFileFields P attData fileEl))
                                    (iterateChildren attData (dataOffset attEl) (dataSize attEl)))),
                          r2)))"

text \<open>
  The words of the specification, for comparison: the last extension of a file name is
  the text from its last dot on, and a file is a font when its lower-cased MIME type is
  in the closed set or its lower-cased last extension is one of the four.
\<close>

definition lastExtension :: "string \<Rightarrow> string option" where
  "lastExtension fileName =
     (if CHR ''.'' \<in> set fileName
      then Some (CHR ''.'' # rev (takeWhile (\<lambda>c. c \<noteq> CHR ''.'') (rev fileName)))
      else None)"

definition spec_isFont :: "string \<Rightarrow> string \<Rightarrow> bool" where
  "spec_isFont mimeType fileName =
     (toLowerCase mimeType \<in> set FONT_MIME_TYPES
      \<or> (\<exists>ext. ext \<in> set FONT_EXTENSIONS \<and> lastExtension (toLowerCase fileName) = Some ext))"

section \<open>mkv/cues.ts and mkv/clusters.ts: batching of targeted reads\<close>

text \<open>
  A Cue entry. Its numbers come from \<open>readUint\<close> and may be \<open>NaN\<close> (\<open>None\<close>);
  \<open>relativePosition\<close> is \<open>None\<close> when it is \<open>undefined\<close>.
\<close>

record CueEntry =
  cue_time :: "int option"
  cue_track :: "int option"
  clusterPosition :: "int option"
  relativePosition :: "int option option"

record BlockTarget =
  absPos :: int
  entry :: CueEntry

definition HEADER_READ_SIZE :: int where "HEADER_READ_SIZE = 16"
definition MAX_BATCH_GAP :: int where "MAX_BATCH_GAP = 2 * 1024 * 1024"
definition BLOCK_SIZE_ESTIMATE :: int where "BLOCK_SIZE_ESTIMATE = 4096"
definition READ_AHEAD :: int where "READ_AHEAD = 32 * 1024"

text \<open>The loop \<open>for (i = 1; ...) gaps.push(targets[i].absPos - targets[i - 1].absPos)\<close>.\<close>

fun gapsFrom :: "BlockTarget \<Rightarrow> BlockTarget list \<Rightarrow> int list" where
  "gapsFrom prev [] = []"
| "gapsFrom prev (t # ts) = (absPos t - absPos prev) # gapsFrom t ts"

definition computeBatchThreshold :: "BlockTarget list \<Rightarrow> int" where
  "computeBatchThreshold targets =
     (if length targets < 2 then 0
      else
        let gaps = sort (gapsFrom (hd targets) (tl targets));
            medianGap = gaps ! (length gaps div 2)
        in if medianGap < MAX_BATCH_GAP
           then min (max (medianGap * 2) READ_AHEAD) MAX_BATCH_GAP
           else 128 * 1024)"

text \<open>
  \<open>groupIntoBatches\<close>; its caller passes a non-empty list. \<open>groupLoop\<close> is the loop, with
  the previous target, the targets left, the batch being filled and the batches closed.
\<close>

fun groupLoop ::
  "int \<Rightarrow> BlockTarget \<Rightarrow> BlockTarget list \<Rightarrow> BlockTarget list \<Rightarrow> BlockTarget list list
   \<Rightarrow> BlockTarget list list" where
  "groupLoop threshold prev [] current batches = batches @ [current]"
| "groupLoop threshold prev (t # ts) current batches =
     (if absPos t - absPos prev \<le> threshold
      then groupLoop threshold t ts (current @ [t]) batches
      else groupLoop threshold t ts [t] (batches @ [current]))"

fun groupIntoBatches :: "BlockTarget list \<Rightarrow> int \<Rightarrow> BlockTarget list list" where
  "groupIntoBatches (t # ts) threshold = groupLoop threshold t ts [t] []"

text \<open>
  The range that \<open>processBatch\<close> reads for a batch, as (offset, length):
  \<open>reader.read(readStart, readEnd - readStart)\<close>.
\<close>

definition batchRange :: "BlockTarget list \<Rightarrow> int \<times> int" where
  "batchRange batch =
     (let readStart = absPos (hd batch);
          readEnd = absPos (last batch) + BLOCK_SIZE_ESTIMATE
      in (readStart, readEnd - readStart))"





section \<open>types.ts: blocks and tracks\<close>

text \<open>
  \<open>timestampMs\<close> and \<open>durationMs\<close> are products with the timestamp multiplier and may be
  \<open>NaN\<close>; \<open>durationMs\<close> is \<open>None\<close> when \<open>undefined\<close>. The track number of a track comes
  from \<open>readUint\<close> and may be \<open>NaN\<close> (\<open>None\<close>).
\<close>

record SubtitleBlock =
  trackNumber :: int
  timestampMs :: jsnum
  durationMs :: "jsnum option"
  blk_data :: bytes
  additions :: "bytes option"

record SubtitleTrackInfo =
  ti_trackNumber :: "int option"
  codecId :: string
  codecPrivate :: "bytes option"
  language :: "string option"
  trackName :: "string option"
  defaultDuration :: "int option option"

section \<open>More built-ins: numbers to text, sorting\<close>

text \<open>The program divides by non-zero constants only.\<close>

fun js_div :: "jsnum \<Rightarrow> jsnum \<Rightarrow> jsnum" where
  "js_div (Num a) (Num b) = Num (a / b)"
| "js_div _ _ = NaN"

text \<open>\<open>Math.round\<close>: the nearest integer, a half rounded up; \<open>NaN\<close> stays \<open>NaN\<close>.\<close>

fun mathRound :: "jsnum \<Rightarrow> int option" where
  "mathRound (Num x) = Some \<lfloor>x + 1 / 2\<rfloor>"
| "mathRound NaN = None"

text \<open>\<open>Math.floor(a / b)\<close> and \<open>a % b\<close> (the sign of the dividend) for a positive constant \<open>b\<close>.\<close>

fun floorDiv :: "int option \<Rightarrow> int \<Rightarrow> int option" where
  "floorDiv (Some a) b = Some (a div b)"
| "floorDiv None b = None"

fun jsRem :: "int option \<Rightarrow> int \<Rightarrow> int option" where
  "jsRem (Some a) b = Some (if a < 0 then - ((- a) mod b) else a mod b)"
| "jsRem None b = None"

fun jsString :: "int option \<Rightarrow> string" where
  "jsString (Some i) = showInt i"
| "jsString None = ''NaN''"

definition padStart :: "nat \<Rightarrow> char \<Rightarrow> string \<Rightarrow> string" where
  "padStart n c s = replicate (n - length s) c @ s"

definition trimEnd :: "string \<Rightarrow> string" where
  "trimEnd s = rev (dropWhile isSpace (rev s))"

text \<open>\<open>s.includes(t)\<close>.\<close>

fun stringIncludes :: "string \<Rightarrow> string \<Rightarrow> bool" where
  "stringIncludes [] t = (t = [])"
| "stringIncludes (c # cs) t = (take (length t) (c # cs) = t \<or> stringIncludes cs t)"

text \<open>\<open>s.split('\n')\<close> for a one-character separator, and \<open>lines.join(sep)\<close>.\<close>

fun splitOn :: "char \<Rightarrow> string \<Rightarrow> string list" where
  "splitOn sep [] = [[]]"
| "splitOn sep (c # cs) =
     (if c = sep then [] # splitOn sep cs
      else (case splitOn sep cs of l # ls \<Rightarrow> (c # l) # ls | [] \<Rightarrow> [[c]]))"

fun joinWith :: "string \<Rightarrow> string list \<Rightarrow> string" where
  "joinWith sep [] = []"
| "joinWith sep [l] = l"
| "joinWith sep (l # ls) = l @ sep @ joinWith sep ls"

text \<open>
  \<open>parseInt(s, 10)\<close>: leading white space, an optional sign, then the longest run of
  decimal digits; \<open>NaN\<close> when there is no digit.
\<close>

definition parseInt10 :: "string \<Rightarrow> int option" where
  "parseInt10 s =
     (let s1 = dropWhile isSpace s;
          neg = (s1 \<noteq> [] \<and> hd s1 = CHR ''-'');
          s2 = (if s1 \<noteq> [] \<and> (hd s1 = CHR ''-'' \<or> hd s1 = CHR ''+'') then tl s1 else s1);
          ds = takeWhile isDigit s2
      in if ds = [] then None else Some (if neg then - digitsValue ds else digitsValue ds))"

text \<open>
  \<open>Array.prototype.sort(compare)\<close>. The sort is stable; a comparator result of \<open>NaN\<close>
  counts as \<open>0\<close>. For a consistent comparator the result is the one stable sorted
  arrangement, which the insertion sort below computes; where the comparator is not
  consistent (a \<open>NaN\<close> key among numbers) ECMAScript leaves the order to the engine, and
  the insertion sort is one such engine.
\<close>

fun jsPositive :: "jsnum \<Rightarrow> bool" where
  "jsPositive (Num v) = (v > 0)"
| "jsPositive NaN = False"

fun insertBy :: "('a \<Rightarrow> 'a \<Rightarrow> jsnum) \<Rightarrow> 'a \<Rightarrow> 'a list \<Rightarrow> 'a list" where
  "insertBy cmp x [] = [x]"
| "insertBy cmp x (y # ys) = (if jsPositive (cmp x y) then y # insertBy cmp x ys else x # y # ys)"

definition sortBy :: "('a \<Rightarrow> 'a \<Rightarrow> jsnum) \<Rightarrow> 'a list \<Rightarrow> 'a list" where
  "sortBy cmp xs = foldr (insertBy cmp) xs []"

section \<open>subtitle/srt.ts\<close>

definition formatSrtTimestamp :: "jsnum \<Rightarrow> string" where
  "formatSrtTimestamp ms =
     (let totalMs = mathRound ms;
          hours = floorDiv totalMs 3600000;
          minutes = floorDiv (jsRem totalMs 3600000) 60000;
          seconds = floorDiv (jsRem totalMs 60000) 1000;
          millis = jsRem totalMs 1000
      in padStart 2 CHR ''0'' (jsString hours) @ '':'' @
         padStart 2 CHR ''0'' (jsString minutes) @ '':'' @
         padStart 2 CHR ''0'' (jsString seconds) @ '','' @
         padStart 3 CHR ''0'' (jsString millis))"

text \<open>\<open>block.timestampMs + (block.durationMs ?? 0)\<close>.\<close>

definition blockEnd :: "SubtitleBlock \<Rightarrow> jsnum" where
  "blockEnd block =
     js_add (timestampMs block) (case durationMs block of None \<Rightarrow> Num 0 | Some d \<Rightarrow> d)"

definition byTimestamp :: "SubtitleBlock \<Rightarrow> SubtitleBlock \<Rightarrow> jsnum" where
  "byTimestamp a b = js_sub (timestampMs a) (timestampMs b)"

text \<open>The blocks in the order in which \<open>assembleSrt\<close> emits them.\<close>

definition srtSorted :: "SubtitleBlock list \<Rightarrow> SubtitleBlock list" where
  "srtSorted blocks = sortBy byTimestamp blocks"

text \<open>The four lines pushed for the block at (zero-based) index \<open>i\<close>.\<close>

definition srtEntry :: "Platform \<Rightarrow> nat \<times> SubtitleBlock \<Rightarrow> string list" where
  "srtEntry P = (\<lambda>(i, block).
     [showInt (int i + 1),
      formatSrtTimestamp (timestampMs block) @ '' --> '' @ formatSrtTimestamp (blockEnd block),
      utf8Decode P (blk_data block),
      []])"

definition assembleSrt :: "Platform \<Rightarrow> SubtitleBlock list \<Rightarrow> bytes" where
  "assembleSrt P blocks =
     (let sorted = srtSorted blocks
      in utf8Encode P (joinWith [CHR 0x0A] (concat (map (srtEntry P) (enumerate 0 sorted)))))"

section \<open>subtitle/ass.ts\<close>

definition formatAssTimestamp :: "jsnum \<Rightarrow> string" where
  "formatAssTimestamp ms =
     (let totalCs = mathRound (js_div ms (Num 10));
          hours = floorDiv totalCs 360000;
          minutes = floorDiv (jsRem totalCs 360000) 6000;
          seconds = floorDiv (jsRem totalCs 6000) 100;
          centis = jsRem totalCs 100
      in jsString hours @ '':'' @
         padStart 2 CHR ''0'' (jsString minutes) @ '':'' @
         padStart 2 CHR ''0'' (jsString seconds) @ ''.'' @
         padStart 2 CHR ''0'' (jsString centis))"

record AssFields =
  readOrder :: "int option"
  layer :: string
  style :: string
  name :: string
  marginL :: string
  marginR :: string
  marginV :: string
  effect :: string
  dialogueText :: string

text \<open>
  The loop of \<open>parseAssBlockPayload\<close>: \<open>n\<close> more commas to find in the text from \<open>start\<close>
  on. The result is the fields cut off and the rest after the last comma found; \<open>None\<close>
  is the early \<open>return null\<close>.
\<close>

fun splitCommas :: "nat \<Rightarrow> string \<Rightarrow> (string list \<times> string) option" where
  "splitCommas 0 rest = Some ([], rest)"
| "splitCommas (Suc n) rest =
     (if CHR '','' \<notin> set rest then None
      else
        (case splitCommas n (tl (dropWhile (\<lambda>c. c \<noteq> CHR '','') rest)) of
           None \<Rightarrow> None
         | Some (parts, text) \<Rightarrow> Some (takeWhile (\<lambda>c. c \<noteq> CHR '','') rest # parts, text)))"

definition parseAssBlockPayload :: "string \<Rightarrow> AssFields option" where
  "parseAssBlockPayload text =
     (case splitCommas 8 text of
        None \<Rightarrow> None
      | Some (parts, rest) \<Rightarrow>
          Some \<lparr>readOrder = parseInt10 (parts ! 0), layer = parts ! 1, style = parts ! 2,
                name = parts ! 3, marginL = parts ! 4, marginR = parts ! 5, marginV = parts ! 6,
                effect = parts ! 7, dialogueText = rest\<rparr>)"

definition byReadOrder :: "AssFields \<times> SubtitleBlock \<Rightarrow> AssFields \<times> SubtitleBlock \<Rightarrow> jsnum" where
  "byReadOrder a b = js_sub (num (readOrder (fst a))) (num (readOrder (fst b)))"

text \<open>\<open>parsedBlocks\<close> after the sort: the blocks whose payload parses, by ReadOrder.\<close>

definition assSorted :: "Platform \<Rightarrow> SubtitleBlock list \<Rightarrow> (AssFields \<times> SubtitleBlock) list" where
  "assSorted P blocks =
     sortBy byReadOrder
       (concat (map (\<lambda>block. case parseAssBlockPayload (utf8Decode P (blk_data block)) of
                                None \<Rightarrow> []
                              | Some parsed \<Rightarrow> [(parsed, block)]) blocks))"

text \<open>The Dialogue line, from the parsed fields, the two formatted times and the line ending.\<close>

definition dialogueLine :: "AssFields \<Rightarrow> string \<Rightarrow> string \<Rightarrow> string \<Rightarrow> string" where
  "dialogueLine parsed start end lineEnding =
     ''Dialogue: '' @ layer parsed @ '','' @ start @ '','' @ end @ '','' @ style parsed @ '','' @
     name parsed @ '','' @ marginL parsed @ '','' @ marginR parsed @ '','' @ marginV parsed @ '','' @
     effect parsed @ '','' @ dialogueText parsed @ lineEnding"

definition assDialogue :: "string \<Rightarrow> AssFields \<times> SubtitleBlock \<Rightarrow> string" where
  "assDialogue lineEnding = (\<lambda>(parsed, block).
     dialogueLine parsed (formatAssTimestamp (timestampMs block))
       (formatAssTimestamp (blockEnd block)) lineEnding)"

definition assLineEnding :: "string \<Rightarrow> string" where
  "assLineEnding header = (if stringIncludes header [CHR 0x0D, CHR 0x0A] then [CHR 0x0D, CHR 0x0A] else [CHR 0x0A])"

definition assembleAss :: "Platform \<Rightarrow> SubtitleTrackInfo \<Rightarrow> SubtitleBlock list \<Rightarrow> bytes" where
  "assembleAss P track blocks =
     (let header = (case codecPrivate track of Some cp \<Rightarrow> utf8Decode P cp | None \<Rightarrow> []);
          lineEnding = assLineEnding header;
          hasEvents = stringIncludes header ''[Events]'';
          parsedBlocks = assSorted P blocks;
          headerParts =
            (if hasEvents then [trimEnd header @ lineEnding]
             else [trimEnd header, lineEnding @ lineEnding, ''[Events]'' @ lineEnding,
                   ''Format: Layer, Start, End, Style, Name, MarginL, MarginR, MarginV, Effect, Text''
                     @ lineEnding])
      in utf8Encode P
           (concat (headerParts @ map (assDialogue lineEnding) parsedBlocks @ [lineEnding])))"

section \<open>subtitle/vtt.ts\<close>

definition formatVttTimestamp :: "jsnum \<Rightarrow> string" where
  "formatVttTimestamp ms =
     (let totalMs = mathRound ms;
          hours = floorDiv totalMs 3600000;
          minutes = floorDiv (jsRem totalMs 3600000) 60000;
          seconds = floorDiv (jsRem totalMs 60000) 1000;
          millis = jsRem totalMs 1000
      in padStart 2 CHR ''0'' (jsString hours) @ '':'' @
         padStart 2 CHR ''0'' (jsString minutes) @ '':'' @
         padStart 2 CHR ''0'' (jsString seconds) @ ''.'' @
         padStart 3 CHR ''0'' (jsString millis))"

text \<open>\<open>parseVttAdditions\<close>: (cueId, cueSettings, comments).\<close>

definition parseVttAdditions :: "Platform \<Rightarrow> bytes option \<Rightarrow> string \<times> string \<times> string" where
  "parseVttAdditions P adds =
     (case adds of
        None \<Rightarrow> ([], [], [])
      | Some a \<Rightarrow>
          if length a = 0 then ([], [], [])
          else
            let lines = splitOn (CHR 0x0A) (utf8Decode P a)
            in (if 0 < length lines then lines ! 0 else [],
                if 1 < length lines then lines ! 1 else [],
                joinWith [CHR 0x0A] (drop 2 lines)))"

definition vttEntry :: "Platform \<Rightarrow> SubtitleBlock \<Rightarrow> string list" where
  "vttEntry P block =
     (case parseVttAdditions P (additions block) of
        (cueId, cueSettings, comments) \<Rightarrow>
          (if comments \<noteq> [] then [comments, []] else []) @
          (if cueId \<noteq> [] then [cueId] else []) @
          [formatVttTimestamp (timestampMs block) @ '' --> '' @ formatVttTimestamp (blockEnd block)
             @ (if cueSettings \<noteq> [] then '' '' @ cueSettings else []),
           utf8Decode P (blk_data block),
           []])"

definition assembleVtt :: "Platform \<Rightarrow> SubtitleTrackInfo \<Rightarrow> SubtitleBlock list \<Rightarrow> bytes" where
  "assembleVtt P track blocks =
     (let header = (case codecPrivate track of Some cp \<Rightarrow> utf8Decode P cp | None \<Rightarrow> ''WEBVTT'');
          sorted = sortBy byTimestamp blocks
      in utf8Encode P
           (joinWith [CHR 0x0A] ([trimEnd header, []] @ concat (map (vttEntry P) sorted))))"

section \<open>subtitle/assembler.ts\<close>

datatype SubtitleFormat = srt | ass | ssa | vtt

definition getSubtitleFormat :: "string \<Rightarrow> SubtitleFormat" where
  "getSubtitleFormat c =
     (if c = ''S_TEXT/UTF8'' then srt
      else if c = ''S_TEXT/ASS'' then ass
      else if c = ''S_TEXT/SSA'' then ssa
      else if c = ''S_TEXT/WEBVTT'' then vtt
      else srt)"

definition assembleSubtitle :: "Platform \<Rightarrow> SubtitleTrackInfo \<Rightarrow> SubtitleBlock list \<Rightarrow> bytes" where
  "assembleSubtitle P track blocks =
     (if codecId track = ''S_TEXT/UTF8'' then assembleSrt P blocks
      else if codecId track = ''S_TEXT/ASS'' \<or> codecId track = ''S_TEXT/SSA'' then assembleAss P track blocks
      else if codecId track = ''S_TEXT/WEBVTT'' then assembleVtt P track blocks
      else assembleSrt P blocks)"

text \<open>A decoder and encoder for the examples: bytes and characters with the same code.\<close>

definition latin1 :: Platform where
  "latin1 = \<lparr>utf8Decode = map (\<lambda>b. char_of (unat b)), utf8Encode = map (\<lambda>c. of_nat (of_char c))\<rparr>"


text \<open>A block of track 1 for the examples, from its timestamp and its payload text.\<close>

definition exampleBlock :: "real \<Rightarrow> string \<Rightarrow> SubtitleBlock" where
  "exampleBlock ts payload =
     \<lparr>trackNumber = 1, timestampMs = Num ts, durationMs = None,
      blk_data = utf8Encode latin1 payload, additions = None\<rparr>"

section \<open>Sequences of reads, and a server for the examples\<close>

text \<open>
  A sequence of \<open>read\<close> calls on one reader; every call comes with the behaviour of the
  injected \<open>fetch\<close> at that time, so the server may answer differently from call to
  call. A call that throws leaves the reader as the call left it.
\<close>

fun readAll :: "RangeReader \<Rightarrow> (fetch \<times> int \<times> int) list \<Rightarrow> RangeReader" where
  "readAll r [] = r"
| "readAll r ((fetchFn, offset, len) # ops) = readAll (snd (read fetchFn r offset len)) ops"

text \<open>
  A server that holds a file of \<open>n\<close> zero bytes and honours Range requests: it answers
  \<open>bytes=a-b\<close> with status 206, the bytes from \<open>a\<close> to \<open>b\<close> clipped to the file, and the
  total size in \<open>Content-Range\<close>; a request without Range gets the whole file with status
  200.
\<close>

definition zeroFileServer :: "nat \<Rightarrow> fetch" where
  "zeroFileServer n req =
     (case req_range req of
        Some (a, b) \<Rightarrow>
          Inr \<lparr>status = 206,
               contentRange = Some (''bytes '' @ showInt a @ ''-'' @ showInt (min b (int n - 1)) @ ''/''
                                    @ showInt (int n)),
               body = replicate (nat (min b (int n - 1) - a + 1)) 0\<rparr>
      | None \<Rightarrow> Inr \<lparr>status = 200, contentRange = None, body = replicate n 0\<rparr>)"

text \<open>A server without Range support: it answers every request with the whole file and status 200.\<close>

definition plainServer :: "bytes \<Rightarrow> fetch" where
  "plainServer file req = Inr \<lparr>status = 200, contentRange = None, body = file\<rparr>"

text \<open>A server that answers every request with the given status and an empty body.\<close>

definition statusServer :: "int \<Rightarrow> fetch" where
  "statusServer code req = Inr \<lparr>status = code, contentRange = None, body = []\<rparr>"

section \<open>A reader and a result: sequencing\<close>

text \<open>
  An asynchronous function that uses the reader returns its result, or the exception it
  throws, together with the reader as it leaves it. \<open>bindR\<close> is \<open>await\<close>: an exception
  ends the caller too.
\<close>

definition bindR ::
  "(js_error + 'a) \<times> RangeReader \<Rightarrow> ('a \<Rightarrow> RangeReader \<Rightarrow> (js_error + 'b) \<times> RangeReader)
   \<Rightarrow> (js_error + 'b) \<times> RangeReader" where
  "bindR m f = (case m of (Inl e, r) \<Rightarrow> (Inl e, r) | (Inr x, r) \<Rightarrow> f x r)"

text \<open>A synchronous step that may throw, in the same form.\<close>

definition liftR :: "js_error + 'a \<Rightarrow> RangeReader \<Rightarrow> (js_error + 'a) \<times> RangeReader" where
  "liftR x r = (x, r)"

section \<open>mkv/segment.ts\<close>

record SeekEntry =
  seek_id :: int
  position :: "int option"

record SegmentInfo =
  timestampScale :: "int option"

record SegmentParseResult =
  segmentDataOffset :: nat
  segmentDataSize :: int
  seekEntries :: "SeekEntry list"
  info :: SegmentInfo

text \<open>
  The children of one Seek element: \<open>readElementId\<close> on the bytes of a SeekID may throw,
  which ends \<open>parseSeekHead\<close>.
\<close>

fun seekFields :: "bytes \<Rightarrow> EbmlElement list \<Rightarrow> int \<Rightarrow> int option \<Rightarrow> js_error + (int \<times> int option)" where
  "seekFields data [] seekId seekPosition = Inr (seekId, seekPosition)"
| "seekFields data (child # children) seekId seekPosition =
     (if el_id child = SEEK_ID then
        (case readElementId
                (slice data (int (dataOffset child)) (int (dataOffset child) + dataSize child)) 0 of
           Inl e \<Rightarrow> Inl e
         | Inr parsed \<Rightarrow> seekFields data children (vint_value parsed) seekPosition)
      else if el_id child = SEEK_POSITION then
        seekFields data children seekId (readUint data (dataOffset child) (dataSize child))
      else seekFields data children seekId seekPosition)"

fun seekHeadLoop :: "bytes \<Rightarrow> EbmlElement list \<Rightarrow> js_error + SeekEntry list" where
  "seekHeadLoop data [] = Inr []"
| "seekHeadLoop data (seekEl # seekEls) =
     (if el_id seekEl \<noteq> SEEK then seekHeadLoop data seekEls
      else
        (case seekFields data (iterateChildren data (dataOffset seekEl) (dataSize seekEl)) 0 (Some 0) of
           Inl e \<Rightarrow> Inl e
         | Inr (seekId, seekPosition) \<Rightarrow>
             (case seekHeadLoop data seekEls of
                Inl e \<Rightarrow> Inl e
              | Inr entries \<Rightarrow>
                  Inr ((if seekId \<noteq> 0 then [\<lparr>seek_id = seekId, position = seekPosition\<rparr>] else [])
                       @ entries))))"

definition parseSeekHead :: "bytes \<Rightarrow> EbmlElement \<Rightarrow> js_error + SeekEntry list" where
  "parseSeekHead data seekHeadEl =
     seekHeadLoop data (iterateChildren data (dataOffset seekHeadEl) (dataSize seekHeadEl))"

definition parseInfo :: "bytes \<Rightarrow> EbmlElement \<Rightarrow> SegmentInfo" where
  "parseInfo data infoEl =
     \<lparr>timestampScale =
        foldl (\<lambda>ts child. if el_id child = TIMESTAMP_SCALE
                            then readUint data (dataOffset child) (dataSize child) else ts)
          (Some 1000000)
          (iterateChildren data (dataOffset infoEl) (dataSize infoEl))\<rparr>"

lemma vintLoop_ge0: "0 \<le> v \<Longrightarrow> 0 \<le> vintLoop v bs"
  by (induction bs arbitrary: v) simp_all

lemma sizeLoop_fst: "fst (sizeLoop v a bs) = vintLoop v bs"
  by (induction bs arbitrary: v a) simp_all

lemma sizeLoop_ge0: "sizeLoop (uint (b::byte)) x bs = (v, y) \<Longrightarrow> 0 \<le> v"
  using sizeLoop_fst[of "uint b" x bs] vintLoop_ge0[of "uint b" bs] by simp

lemma readDataSize_ge: "readDataSize data offset = Inr r \<Longrightarrow> - 1 \<le> vint_value r"
  by (auto simp: readDataSize_def Let_def split: if_splits prod.splits dest!: sizeLoop_ge0)

lemma parseElementHeader_dataSize: "parseElementHeader data offset = Inr e \<Longrightarrow> - 1 \<le> dataSize e"
  by (auto simp: parseElementHeader_def split: sum.splits if_splits dest: readDataSize_ge)

lemma readDataSize_length_pos: "readDataSize data offset = Inr r \<Longrightarrow> 0 < vint_length r"
  by (auto simp: readDataSize_def Let_def vintWidth_pos split: if_splits prod.splits)

lemma parseElementHeader_header2:
  "parseElementHeader data offset = Inr e \<Longrightarrow> offset + 2 \<le> dataOffset e"
  by (auto simp: parseElementHeader_def split: sum.splits
      dest!: readElementId_length_pos readDataSize_length_pos)

lemma parseElementHeader_step:
  "parseElementHeader data offset = Inr e \<Longrightarrow> offset + 2 \<le> dataOffset e \<and> - 1 \<le> dataSize e"
  using parseElementHeader_header2[of data offset e] parseElementHeader_dataSize[of data offset e]
  by blast

text \<open>
  The scan of the Segment-level elements in \<open>parseSegment\<close>, from \<open>offset\<close> with the seek
  entries and the info collected so far.
\<close>

function segmentLoop ::
  "bytes \<Rightarrow> int \<Rightarrow> nat \<Rightarrow> SeekEntry list \<Rightarrow> SegmentInfo \<Rightarrow> js_error + (SeekEntry list \<times> SegmentInfo)" where
  "segmentLoop segData metaEnd offset entries sinfo =
     (if int offset < metaEnd - 2 then
        (case parseElementHeader segData offset of
           Inl e \<Rightarrow> Inr (entries, sinfo)
         | Inr element \<Rightarrow>
             if el_id element = SEEK_HEAD then
               (case parseSeekHead segData element of
                  Inl e \<Rightarrow> Inl e
                | Inr es \<Rightarrow>
                    if unknownSize element then Inr (entries @ es, sinfo)
                    else segmentLoop segData metaEnd (dataOffset element + nat (dataSize element))
                           (entries @ es) sinfo)
             else if el_id element = INFO then
               (if unknownSize element then Inr (entries, parseInfo segData element)
                else segmentLoop segData metaEnd (dataOffset element + nat (dataSize element))
                       entries (parseInfo segData element))
             else if el_id element = CLUSTER then Inr (entries, sinfo)
             else if unknownSize element then Inr (entries, sinfo)
             else segmentLoop segData metaEnd (dataOffset element + nat (dataSize element))
                    entries sinfo)
      else Inr (entries, sinfo))"
  by pat_completeness auto
termination
  by (relation "measure (\<lambda>(segData, metaEnd, offset, entries, sinfo). nat (metaEnd - int offset))")
     (auto dest!: parseElementHeader_advances)

definition parseSegment :: "fetch \<Rightarrow> RangeReader \<Rightarrow> (js_error + SegmentParseResult) \<times> RangeReader" where
  "parseSegment fetchFn reader =
     bindR (read fetchFn reader 0 (min (256 * 1024) (fileSize reader))) (\<lambda>data r.
       liftR
         (case parseElementHeader data 0 of
            Inl e \<Rightarrow> Inl e
          | Inr ebmlHeader \<Rightarrow>
              if el_id ebmlHeader \<noteq> EBML_HEADER
              then Inl (MkvParseError ''Not a valid EBML file: missing EBML header'')
              else
                let segmentStart = nat (int (dataOffset ebmlHeader) + dataSize ebmlHeader)
                in case parseElementHeader data segmentStart of
                     Inl e \<Rightarrow> Inl e
                   | Inr segment \<Rightarrow>
                       if el_id segment \<noteq> SEGMENT
                       then Inl (MkvParseError ''Not a valid MKV file: missing Segment element'')
                       else
                         let segDataOffset = dataOffset segment;
                             segDataSize = (if unknownSize segment
                                            then fileSize r - int (dataOffset segment)
                                            else dataSize segment);
                             metaEnd = int (length data) - int segDataOffset;
                             segData = sliceFrom data (int segDataOffset)
                         in case segmentLoop segData metaEnd 0 [] \<lparr>timestampScale = Some 1000000\<rparr> of
                              Inl e \<Rightarrow> Inl e
                            | Inr (entries, sinfo) \<Rightarrow>
                                Inr \<lparr>segmentDataOffset = segDataOffset, segmentDataSize = segDataSize,
                                     seekEntries = entries, info = sinfo\<rparr>)
         r)"

section \<open>mkv/tracks.ts\<close>

definition SUBTITLE_TRACK_TYPE :: int where
  "SUBTITLE_TRACK_TYPE = 17"

text \<open>The variables that the loop over the children of a TrackEntry assigns.\<close>

record TrackVars =
  tv_trackNumber :: "int option"
  tv_trackType :: "int option"
  tv_codecId :: string
  tv_codecPrivate :: "bytes option"
  tv_language :: "string option"
  tv_trackName :: "string option"
  tv_defaultDuration :: "int option option"

definition trackChild :: "Platform \<Rightarrow> bytes \<Rightarrow> TrackVars \<Rightarrow> EbmlElement \<Rightarrow> TrackVars" where
  "trackChild P tracksData v child =
     (if el_id child = TRACK_NUMBER
      then v\<lparr>tv_trackNumber := readUint tracksData (dataOffset child) (dataSize child)\<rparr>
      else if el_id child = TRACK_TYPE
      then v\<lparr>tv_trackType := readUint tracksData (dataOffset child) (dataSize child)\<rparr>
      else if el_id child = CODEC_ID
      then v\<lparr>tv_codecId := readUtf8 P tracksData (dataOffset child) (dataSize child)\<rparr>
      else if el_id child = CODEC_PRIVATE
      then v\<lparr>tv_codecPrivate := Some (readBinary tracksData (dataOffset child) (dataSize child))\<rparr>
      else if el_id child = LANGUAGE
      then (if tv_language v = None
            then v\<lparr>tv_language := Some (readUtf8 P tracksData (dataOffset child) (dataSize child))\<rparr>
            else v)
      else if el_id child = LANGUAGE_BCP47
      then v\<lparr>tv_language := Some (readUtf8 P tracksData (dataOffset child) (dataSize child))\<rparr>
      else if el_id child = NAME
      then v\<lparr>tv_trackName := Some (readUtf8 P tracksData (dataOffset child) (dataSize child))\<rparr>
      else if el_id child = DEFAULT_DURATION
      then v\<lparr>tv_defaultDuration := Some (readUint tracksData (dataOffset child) (dataSize child))\<rparr>
      else v)"

definition trackEntry :: "Platform \<Rightarrow> bytes \<Rightarrow> EbmlElement \<Rightarrow> SubtitleTrackInfo list" where
  "trackEntry P tracksData entryEl =
     (if el_id entryEl \<noteq> TRACK_ENTRY then []
      else
        let v = foldl (trackChild P tracksData)
                  \<lparr>tv_trackNumber = Some 0, tv_trackType = Some 0, tv_codecId = [],
                   tv_codecPrivate = None, tv_language = None, tv_trackName = None,
                   tv_defaultDuration = None\<rparr>
                  (iterateChildren tracksData (dataOffset entryEl) (dataSize entryEl))
        in if tv_trackType v = Some SUBTITLE_TRACK_TYPE
           then [\<lparr>ti_trackNumber = tv_trackNumber v, codecId = tv_codecId v,
                  codecPrivate = tv_codecPrivate v,
                  language = (if tv_language v = Some ''und'' then None else tv_language v),
                  trackName = tv_trackName v, defaultDuration = tv_defaultDuration v\<rparr>]
           else [])"

definition parseTracks ::
  "Platform \<Rightarrow> fetch \<Rightarrow> RangeReader \<Rightarrow> nat \<Rightarrow> int \<Rightarrow> (js_error + SubtitleTrackInfo list) \<times> RangeReader" where
  "parseTracks P fetchFn reader segDataOffset tracksPosition =
     (let absoluteOffset = int segDataOffset + tracksPosition
      in bindR (read fetchFn reader absoluteOffset 12) (\<lambda>headerData r1.
           bindR (liftR (parseElementHeader headerData 0) r1) (\<lambda>tracksEl r1.
             let totalSize = int (dataOffset tracksEl) + dataSize tracksEl
             in bindR (read fetchFn r1 absoluteOffset totalSize) (\<lambda>tracksData r2.
                  (Inr (concat (map (trackEntry P tracksData)
                                  (iterateChildren tracksData (dataOffset tracksEl) (dataSize tracksEl)))),
                   r2)))))"

section \<open>mkv/cues.ts\<close>

text \<open>The first pass over a CuePoint: the first CueTime, or 0.\<close>

fun cueTimeOf :: "bytes \<Rightarrow> EbmlElement list \<Rightarrow> int option" where
  "cueTimeOf cuesData [] = Some 0"
| "cueTimeOf cuesData (child # children) =
     (if el_id child = CUE_TIME then readUint cuesData (dataOffset child) (dataSize child)
      else cueTimeOf cuesData children)"

definition cuePosChild :: "bytes \<Rightarrow> CueEntry \<Rightarrow> EbmlElement \<Rightarrow> CueEntry" where
  "cuePosChild cuesData c posChild =
     (if el_id posChild = CUE_TRACK
      then c\<lparr>cue_track := readUint cuesData (dataOffset posChild) (dataSize posChild)\<rparr>
      else if el_id posChild = CUE_CLUSTER_POSITION
      then c\<lparr>clusterPosition := readUint cuesData (dataOffset posChild) (dataSize posChild)\<rparr>
      else if el_id posChild = CUE_RELATIVE_POSITION
      then c\<lparr>relativePosition := Some (readUint cuesData (dataOffset posChild) (dataSize posChild))\<rparr>
      else c)"

definition cuePoint :: "bytes \<Rightarrow> EbmlElement \<Rightarrow> CueEntry list" where
  "cuePoint cuesData pointEl =
     (if el_id pointEl \<noteq> CUE_POINT then []
      else
        let children = iterateChildren cuesData (dataOffset pointEl) (dataSize pointEl);
            cueTime = cueTimeOf cuesData children
        in concat
             (map (\<lambda>child.
                     if el_id child \<noteq> CUE_TRACK_POSITIONS then []
                     else [foldl (cuePosChild cuesData)
                             \<lparr>cue_time = cueTime, cue_track = Some 0, clusterPosition = Some 0,
                              relativePosition = None\<rparr>
                             (iterateChildren cuesData (dataOffset child) (dataSize child))])
                children))"

definition parseCues ::
  "fetch \<Rightarrow> RangeReader \<Rightarrow> nat \<Rightarrow> int \<Rightarrow> (js_error + CueEntry list) \<times> RangeReader" where
  "parseCues fetchFn reader segDataOffset cuesPosition =
     (let absoluteOffset = int segDataOffset + cuesPosition
      in bindR (read fetchFn reader absoluteOffset 12) (\<lambda>headerData r1.
           bindR (liftR (parseElementHeader headerData 0) r1) (\<lambda>cuesEl r1.
             let totalSize = int (dataOffset cuesEl) + dataSize cuesEl
             in bindR (read fetchFn r1 absoluteOffset totalSize) (\<lambda>cuesData r2.
                  (Inr (concat (map (cuePoint cuesData)
                                  (iterateChildren cuesData (dataOffset cuesEl) (dataSize cuesEl)))),
                   r2)))))"

section \<open>mkv/clusters.ts: blocks\<close>

text \<open>
  The relative timestamp of a block: \<open>(blockData[tsOffset] << 8) | blockData[tsOffset + 1]\<close>,
  where a byte past the end counts as 0, read as a signed 16-bit number.
\<close>

definition signedRelTs :: "bytes \<Rightarrow> nat \<Rightarrow> int" where
  "signedRelTs blockData tsOffset =
     (let hi = (case byteAt blockData tsOffset of Some b \<Rightarrow> b | None \<Rightarrow> 0);
          lo = (case byteAt blockData (tsOffset + 1) of Some b \<Rightarrow> b | None \<Rightarrow> 0);
          relativeTimestamp = hi * 256 + lo
      in if relativeTimestamp > 32767 then relativeTimestamp - 65536 else relativeTimestamp)"

text \<open>\<open>(clusterTimestamp + signedRelTs) * tsMultiplier\<close>.\<close>

definition absoluteTimestamp :: "int option \<Rightarrow> int \<Rightarrow> jsnum \<Rightarrow> jsnum" where
  "absoluteTimestamp clusterTimestamp rel tsMultiplier =
     js_mul (js_add (num clusterTimestamp) (Num (real_of_int rel))) tsMultiplier"

definition parseSimpleBlock ::
  "fetch \<Rightarrow> RangeReader \<Rightarrow> int \<Rightarrow> int \<Rightarrow> int option \<Rightarrow> jsnum \<Rightarrow> int option set
   \<Rightarrow> (js_error + SubtitleBlock option) \<times> RangeReader" where
  "parseSimpleBlock fetchFn reader dataOff dataSz clusterTimestamp tsMultiplier subtitleTrackNumbers =
     (let peekSize = min 8 dataSz
      in bindR (read fetchFn reader dataOff peekSize) (\<lambda>peekBuf r1.
           bindR (liftR (readTrackNumber peekBuf 0) r1) (\<lambda>trackVint r1.
             let trackNum = vint_value trackVint
             in if Some trackNum \<notin> subtitleTrackNumbers then (Inr None, r1)
                else
                  bindR (read fetchFn r1 dataOff dataSz) (\<lambda>blockData r2.
                    let tsOffset = vint_length trackVint;
                        payloadStart = tsOffset + 3;
                        payload = sliceFrom blockData (int payloadStart)
                    in (Inr (Some \<lparr>trackNumber = trackNum,
                                    timestampMs = absoluteTimestamp clusterTimestamp
                                                    (signedRelTs blockData tsOffset) tsMultiplier,
                                    durationMs = None, blk_data = payload, additions = None\<rparr>),
                        r2)))))"

text \<open>
  The quick scan of the first bytes of a BlockGroup for the track number of its Block:
  \<open>-1\<close> when no Block is found or its track number cannot be read.
\<close>

function peekBlockTrack :: "bytes \<Rightarrow> nat \<Rightarrow> int" where
  "peekBlockTrack peekBuf peekOffset =
     (if int peekOffset < int (length peekBuf) - 4 then
        (case parseElementHeader peekBuf peekOffset of
           Inl e \<Rightarrow> - 1
         | Inr el \<Rightarrow>
             if el_id el = BLOCK then
               (if dataOffset el < length peekBuf then
                  (case readTrackNumber peekBuf (dataOffset el) of
                     Inl e \<Rightarrow> - 1
                   | Inr tv \<Rightarrow> vint_value tv)
                else - 1)
             else if unknownSize el then - 1
             else peekBlockTrack peekBuf (dataOffset el + nat (dataSize el)))
      else - 1)"
  by pat_completeness auto
termination
  by (relation "measure (\<lambda>(peekBuf, peekOffset). length peekBuf - peekOffset)")
     (auto dest!: parseElementHeader_advances)

text \<open>\<open>parseBlockAdditions\<close>: the bytes of the first BlockAdditional inside a BlockMore.\<close>

definition parseBlockAdditions :: "bytes \<Rightarrow> EbmlElement \<Rightarrow> bytes option" where
  "parseBlockAdditions data additionsEl =
     (case concat
             (map (\<lambda>blockMore.
                     if el_id blockMore \<noteq> BLOCK_MORE then []
                     else filter (\<lambda>child. el_id child = BLOCK_ADDITIONAL)
                            (iterateChildren data (dataOffset blockMore) (dataSize blockMore)))
                (iterateChildren data (dataOffset additionsEl) (dataSize additionsEl))) of
        [] \<Rightarrow> None
      | child # others \<Rightarrow>
          Some (slice data (int (dataOffset child)) (int (dataOffset child) + dataSize child)))"

text \<open>
  The loop over the children of a BlockGroup in \<open>processBlockGroup\<close>: the Block element,
  the BlockDuration and the additions seen so far.
\<close>

definition groupChild ::
  "bytes \<Rightarrow> EbmlElement option \<times> int option option \<times> bytes option \<Rightarrow> EbmlElement
   \<Rightarrow> EbmlElement option \<times> int option option \<times> bytes option" where
  "groupChild groupData = (\<lambda>(blockElement, blockDuration, adds) child.
     if el_id child = BLOCK then (Some child, blockDuration, adds)
     else if el_id child = BLOCK_DURATION
     then (blockElement, Some (readUint groupData (dataOffset child) (dataSize child)), adds)
     else if el_id child = BLOCK_ADDITIONS
     then (blockElement, blockDuration, parseBlockAdditions groupData child)
     else (blockElement, blockDuration, adds))"

text \<open>\<open>blockDuration !== undefined ? blockDuration * tsMultiplier : undefined\<close>.\<close>

definition durationOf :: "int option option \<Rightarrow> jsnum \<Rightarrow> jsnum option" where
  "durationOf blockDuration tsMultiplier =
     (case blockDuration of None \<Rightarrow> None | Some d \<Rightarrow> Some (js_mul (num d) tsMultiplier))"

definition processBlockGroup ::
  "fetch \<Rightarrow> RangeReader \<Rightarrow> int \<Rightarrow> int \<Rightarrow> int option \<Rightarrow> jsnum \<Rightarrow> int option set
   \<Rightarrow> (js_error + SubtitleBlock list) \<times> RangeReader" where
  "processBlockGroup fetchFn reader groupDataStart groupDataSize clusterTimestamp tsMultiplier
     subtitleTrackNumbers =
     (let peekSize = min 32 groupDataSize
      in bindR (read fetchFn reader groupDataStart peekSize) (\<lambda>peekBuf r1.
           let blockTrackNum = peekBlockTrack peekBuf 0
           in if blockTrackNum < 0 \<or> Some blockTrackNum \<notin> subtitleTrackNumbers then (Inr [], r1)
              else
                bindR (read fetchFn r1 groupDataStart groupDataSize) (\<lambda>groupData r2.
                  case foldl (groupChild groupData) (None, None, None)
                         (iterateChildren groupData 0 groupDataSize) of
                    (blockElement, blockDuration, adds) \<Rightarrow>
                      (case blockElement of
                         None \<Rightarrow> (Inr [], r2)
                       | Some be \<Rightarrow>
                           let blockData = slice groupData (int (dataOffset be))
                                             (int (dataOffset be) + dataSize be)
                           in bindR (liftR (readTrackNumber blockData 0) r2) (\<lambda>trackVint r2.
                                let tsOffset = vint_length trackVint;
                                    payloadStart = tsOffset + 3;
                                    payload = sliceFrom blockData (int payloadStart)
                                in (Inr [\<lparr>trackNumber = vint_value trackVint,
                                          timestampMs = absoluteTimestamp clusterTimestamp
                                                          (signedRelTs blockData tsOffset) tsMultiplier,
                                          durationMs = durationOf blockDuration tsMultiplier,
                                          blk_data = payload, additions = adds\<rparr>],
                                    r2))))))"

section \<open>mkv/clusters.ts: the linear cluster scan\<close>

text \<open>
  A \<open>while\<close> loop is its body, which ends the loop with a result (\<open>Break\<close>) or hands the
  loop variables to the next iteration (\<open>Continue\<close>), and the iteration of the body.
\<close>

datatype ('s, 'r) loop = Continue 's | Break 'r

text \<open>
  The body of the loop of \<open>processCluster\<close>. The loop variables are \<open>offset\<close>,
  \<open>clusterTimestamp\<close> and \<open>blocks\<close>; the result is \<open>clusterBlocks\<close> and \<open>nextOffset\<close>.
\<close>

definition clusterStep ::
  "fetch \<Rightarrow> int \<Rightarrow> bool \<Rightarrow> int option set \<Rightarrow> jsnum \<Rightarrow> RangeReader \<Rightarrow> int \<Rightarrow> int option
   \<Rightarrow> SubtitleBlock list
   \<Rightarrow> (js_error + (int \<times> int option \<times> SubtitleBlock list, SubtitleBlock list \<times> int) loop)
      \<times> RangeReader" where
  "clusterStep fetchFn clusterEnd unknownSz subtitleTrackNumbers tsMultiplier reader offset
     clusterTimestamp blocks =
     (let remaining = clusterEnd - offset
      in if remaining < 4 then (Inr (Break (blocks, clusterEnd)), reader)
         else
           bindR (read fetchFn reader offset (min HEADER_READ_SIZE remaining)) (\<lambda>headerBuf r1.
             case parseElementHeader headerBuf 0 of
               Inl e \<Rightarrow> (Inr (Break (blocks, clusterEnd)), r1)
             | Inr element \<Rightarrow>
                 let headerSize = dataOffset element;
                     absDataOffset = offset + int headerSize
                 in if unknownSz \<and> el_id element \<in> set SEGMENT_LEVEL_IDS
                    then (Inr (Break (blocks, offset)), r1)
                    else if el_id element = CLUSTER_TIMESTAMP then
                      (if dataSize element \<le> int (length headerBuf) - int headerSize
                       then (Inr (Continue (absDataOffset + dataSize element,
                                            readUint headerBuf headerSize (dataSize element),
                                            blocks)), r1)
                       else
                         bindR (read fetchFn r1 absDataOffset (dataSize element)) (\<lambda>tsData r2.
                           (Inr (Continue (absDataOffset + dataSize element,
                                           readUint tsData 0 (dataSize element), blocks)), r2)))
                    else if el_id element = SIMPLE_BLOCK then
                      bindR (parseSimpleBlock fetchFn r1 absDataOffset (dataSize element)
                               clusterTimestamp tsMultiplier subtitleTrackNumbers) (\<lambda>block r2.
                        (Inr (Continue (absDataOffset + dataSize element, clusterTimestamp,
                                        blocks @ (case block of None \<Rightarrow> [] | Some b \<Rightarrow> [b]))), r2))
                    else if el_id element = BLOCK_GROUP then
                      bindR (processBlockGroup fetchFn r1 absDataOffset (dataSize element)
                               clusterTimestamp tsMultiplier subtitleTrackNumbers) (\<lambda>groupBlocks r2.
                        (Inr (Continue (absDataOffset + dataSize element, clusterTimestamp,
                                        blocks @ groupBlocks)), r2))
                    else if unknownSize element then (Inr (Break (blocks, clusterEnd)), r1)
                    else (Inr (Continue (absDataOffset + dataSize element, clusterTimestamp, blocks)),
                          r1)))"

lemma clusterStep_advances:
  assumes "clusterStep fetchFn clusterEnd unknownSz S m reader offset ct blocks
             = (Inr (Continue (offset', ct', blocks')), r)"
  shows "offset < offset'"
  using assms
  by (auto simp: clusterStep_def bindR_def Let_def
      split: if_splits prod.splits sum.splits dest!: parseElementHeader_step)

function processClusterLoop ::
  "fetch \<Rightarrow> int \<Rightarrow> bool \<Rightarrow> int option set \<Rightarrow> jsnum \<Rightarrow> RangeReader \<Rightarrow> int \<Rightarrow> int option
   \<Rightarrow> SubtitleBlock list \<Rightarrow> (js_error + SubtitleBlock list \<times> int) \<times> RangeReader" where
  "processClusterLoop fetchFn clusterEnd unknownSz subtitleTrackNumbers tsMultiplier reader offset
     clusterTimestamp blocks =
     (if offset < clusterEnd then
        (case clusterStep fetchFn clusterEnd unknownSz subtitleTrackNumbers tsMultiplier reader
                offset clusterTimestamp blocks of
           (Inl e, r) \<Rightarrow> (Inl e, r)
         | (Inr (Break res), r) \<Rightarrow> (Inr res, r)
         | (Inr (Continue (offset', clusterTimestamp', blocks')), r) \<Rightarrow>
             processClusterLoop fetchFn clusterEnd unknownSz subtitleTrackNumbers tsMultiplier r
               offset' clusterTimestamp' blocks')
      else (Inr (blocks, clusterEnd), reader))"
  by pat_completeness auto
termination
  by (relation "measure (\<lambda>(fetchFn, clusterEnd, unknownSz, subtitleTrackNumbers, tsMultiplier,
                           reader, offset, clusterTimestamp, blocks). nat (clusterEnd - offset))")
     (auto dest!: clusterStep_advances[OF sym])

declare processClusterLoop.simps [simp del]

definition processCluster ::
  "fetch \<Rightarrow> RangeReader \<Rightarrow> int \<Rightarrow> int \<Rightarrow> bool \<Rightarrow> int option set \<Rightarrow> jsnum
   \<Rightarrow> (js_error + SubtitleBlock list \<times> int) \<times> RangeReader" where
  "processCluster fetchFn reader clusterDataStart clusterEnd unknownSz subtitleTrackNumbers tsMultiplier =
     processClusterLoop fetchFn clusterEnd unknownSz subtitleTrackNumbers tsMultiplier reader
       clusterDataStart (Some 0) []"

lemma clusterStep_break:
  assumes "clusterStep fetchFn clusterEnd unknownSz S m reader offset ct blocks
             = (Inr (Break (blocks', nxt)), r)"
  shows "nxt = clusterEnd \<or> nxt = offset"
  using assms
  by (auto simp: clusterStep_def bindR_def Let_def split: if_splits prod.splits sum.splits)

lemma processClusterLoop_next:
  "processClusterLoop fetchFn clusterEnd unknownSz S m reader offset ct blocks
     = (Inr (blocks', nxt), r) \<Longrightarrow> nxt = clusterEnd \<or> offset \<le> nxt"
proof (induction fetchFn clusterEnd unknownSz S m reader offset ct blocks
       rule: processClusterLoop.induct)
  case (1 fetchFn clusterEnd unknownSz S m reader offset ct blocks)
  show ?case
  proof (cases "offset < clusterEnd")
    case False
    with "1.prems" show ?thesis by (simp add: processClusterLoop.simps)
  next
    case True
    obtain res r1 where step: "clusterStep fetchFn clusterEnd unknownSz S m reader offset ct blocks
                                 = (res, r1)"
      by (cases "clusterStep fetchFn clusterEnd unknownSz S m reader offset ct blocks")
    show ?thesis
    proof (cases res)
      case (Inl e)
      with "1.prems" True step show ?thesis by (simp add: processClusterLoop.simps)
    next
      case (Inr l)
      show ?thesis
      proof (cases l)
        case (Break b)
        with "1.prems" True step Inr have "b = (blocks', nxt)" "r1 = r"
          by (simp_all add: processClusterLoop.simps)
        with clusterStep_break[of fetchFn clusterEnd unknownSz S m reader offset ct blocks blocks' nxt r]
          step Inr Break show ?thesis by auto
      next
        case (Continue c)
        obtain offset' ct' bs' where c: "c = (offset', ct', bs')" by (cases c)
        have adv: "offset < offset'"
          using clusterStep_advances[of fetchFn clusterEnd unknownSz S m reader offset ct blocks]
            step Inr Continue c by simp
        have "processClusterLoop fetchFn clusterEnd unknownSz S m r1 offset' ct' bs'
                = (Inr (blocks', nxt), r)"
          using "1.prems" True step Inr Continue c by (simp add: processClusterLoop.simps)
        from "1.IH"[OF True step[symmetric] Inr Continue c[symmetric] refl this] adv
        show ?thesis by auto
      qed
    qed
  qed
qed

text \<open>The body of the loop of \<open>scanClusters\<close>, with the loop variables \<open>offset\<close> and \<open>blocks\<close>.\<close>

definition scanStep ::
  "fetch \<Rightarrow> int \<Rightarrow> int option set \<Rightarrow> jsnum \<Rightarrow> RangeReader \<Rightarrow> int \<Rightarrow> SubtitleBlock list
   \<Rightarrow> (js_error + (int \<times> SubtitleBlock list, SubtitleBlock list) loop) \<times> RangeReader" where
  "scanStep fetchFn endOffset subtitleTrackNumbers tsMultiplier reader offset blocks =
     (let remaining = endOffset - offset
      in if remaining < 4 then (Inr (Break blocks), reader)
         else
           bindR (read fetchFn reader offset (min HEADER_READ_SIZE remaining)) (\<lambda>headerBuf r1.
             case parseElementHeader headerBuf 0 of
               Inl e \<Rightarrow> (Inr (Break blocks), r1)
             | Inr element \<Rightarrow>
                 let headerSize = dataOffset element;
                     absDataOffset = offset + int headerSize
                 in if el_id element = CLUSTER then
                      (let clusterEnd = (if unknownSize element then endOffset
                                         else absDataOffset + dataSize element)
                       in bindR (processCluster fetchFn r1 absDataOffset clusterEnd
                                   (unknownSize element) subtitleTrackNumbers tsMultiplier)
                            (\<lambda>(clusterBlocks, nextOffset) r2.
                               (Inr (Continue (nextOffset, blocks @ clusterBlocks)), r2)))
                    else if unknownSize element then (Inr (Break blocks), r1)
                    else (Inr (Continue (absDataOffset + dataSize element, blocks)), r1)))"

lemma scanStep_advances:
  assumes "scanStep fetchFn endOffset S m reader offset blocks = (Inr (Continue (offset', blocks')), r)"
    and "offset < endOffset"
  shows "offset < offset'"
  using assms
  by (auto simp: scanStep_def bindR_def Let_def processCluster_def
      split: if_splits prod.splits sum.splits
      dest!: parseElementHeader_step processClusterLoop_next)

function scanLoop ::
  "fetch \<Rightarrow> int \<Rightarrow> int option set \<Rightarrow> jsnum \<Rightarrow> RangeReader \<Rightarrow> int \<Rightarrow> SubtitleBlock list
   \<Rightarrow> (js_error + SubtitleBlock list) \<times> RangeReader" where
  "scanLoop fetchFn endOffset subtitleTrackNumbers tsMultiplier reader offset blocks =
     (if offset < endOffset then
        (case scanStep fetchFn endOffset subtitleTrackNumbers tsMultiplier reader offset blocks of
           (Inl e, r) \<Rightarrow> (Inl e, r)
         | (Inr (Break res), r) \<Rightarrow> (Inr res, r)
         | (Inr (Continue (offset', blocks')), r) \<Rightarrow>
             scanLoop fetchFn endOffset subtitleTrackNumbers tsMultiplier r offset' blocks')
      else (Inr blocks, reader))"
  by pat_completeness auto
termination
  by (relation "measure (\<lambda>(fetchFn, endOffset, subtitleTrackNumbers, tsMultiplier, reader,
                           offset, blocks). nat (endOffset - offset))")
     (auto dest!: scanStep_advances[OF sym])

declare scanLoop.simps [simp del]

definition scanClusters ::
  "fetch \<Rightarrow> RangeReader \<Rightarrow> int \<Rightarrow> int \<Rightarrow> int option set \<Rightarrow> int option
   \<Rightarrow> (js_error + SubtitleBlock list) \<times> RangeReader" where
  "scanClusters fetchFn reader startOffset endOffset subtitleTrackNumbers tsScale =
     scanLoop fetchFn endOffset subtitleTrackNumbers (js_div (num tsScale) (Num 1000000)) reader
       startOffset []"

section \<open>mkv/clusters.ts: targeted reads\<close>

text \<open>
  The loop over the children of a BlockGroup in \<open>parseBlockElement\<close>: the payload, the
  track number, the duration and the additions so far. \<open>readTrackNumber\<close> may throw.
\<close>

fun targetGroupChildren ::
  "bytes \<Rightarrow> EbmlElement list \<Rightarrow> bytes option \<times> int \<times> int option option \<times> bytes option
   \<Rightarrow> js_error + (bytes option \<times> int \<times> int option option \<times> bytes option)" where
  "targetGroupChildren elementData [] vars = Inr vars"
| "targetGroupChildren elementData (child # children) (blockPayload, trackNum, blockDuration, adds) =
     (if el_id child = BLOCK then
        (let raw = slice elementData (int (dataOffset child)) (int (dataOffset child) + dataSize child)
         in case readTrackNumber raw 0 of
              Inl e \<Rightarrow> Inl e
            | Inr tv \<Rightarrow>
                targetGroupChildren elementData children
                  (Some (sliceFrom raw (int (vint_length tv + 3))), vint_value tv, blockDuration, adds))
      else if el_id child = BLOCK_DURATION then
        targetGroupChildren elementData children
          (blockPayload, trackNum,
           Some (readUint elementData (dataOffset child) (dataSize child)), adds)
      else if el_id child = BLOCK_ADDITIONS then
        targetGroupChildren elementData children
          (blockPayload, trackNum, blockDuration, parseBlockAdditions elementData child)
      else targetGroupChildren elementData children (blockPayload, trackNum, blockDuration, adds))"

definition parseBlockElement ::
  "bytes \<Rightarrow> EbmlElement \<Rightarrow> jsnum \<Rightarrow> int option set \<Rightarrow> jsnum \<Rightarrow> js_error + SubtitleBlock option" where
  "parseBlockElement elementData el cueTimeMs subtitleTrackNumbers tsMultiplier =
     (if el_id el = SIMPLE_BLOCK then
        (let blockData = slice elementData (int (dataOffset el)) (int (dataOffset el) + dataSize el)
         in case readTrackNumber blockData 0 of
              Inl e \<Rightarrow> Inl e
            | Inr trackVint \<Rightarrow>
                if Some (vint_value trackVint) \<notin> subtitleTrackNumbers then Inr None
                else
                  Inr (Some \<lparr>trackNumber = vint_value trackVint, timestampMs = cueTimeMs,
                             durationMs = None,
                             blk_data = sliceFrom blockData (int (vint_length trackVint + 3)),
                             additions = None\<rparr>))
      else if el_id el = BLOCK_GROUP then
        (case targetGroupChildren elementData (iterateChildren elementData (dataOffset el) (dataSize el))
                (None, 0, None, None) of
           Inl e \<Rightarrow> Inl e
         | Inr (blockPayload, trackNum, blockDuration, adds) \<Rightarrow>
             (case blockPayload of
                None \<Rightarrow> Inr None
              | Some payload \<Rightarrow>
                  if Some trackNum \<notin> subtitleTrackNumbers then Inr None
                  else
                    Inr (Some \<lparr>trackNumber = trackNum, timestampMs = cueTimeMs,
                               durationMs = durationOf blockDuration tsMultiplier,
                               blk_data = payload, additions = adds\<rparr>)))
      else Inr None)"

text \<open>
  The \<open>try\<close> block of \<open>processBatch\<close> for one target: the element's bytes and header, from
  the batch buffer or from a follow-up read; \<open>None\<close> is the \<open>catch\<close>. The local offset is
  not negative, since a batch starts at its smallest position.
\<close>

definition locateElement ::
  "fetch \<Rightarrow> bytes \<Rightarrow> int \<Rightarrow> RangeReader \<Rightarrow> BlockTarget \<Rightarrow> (bytes \<times> EbmlElement) option \<times> RangeReader" where
  "locateElement fetchFn batchData localOffset reader target =
     (case parseElementHeader batchData (nat localOffset) of
        Inl e \<Rightarrow> (None, reader)
      | Inr headerEl \<Rightarrow>
          let elementEnd = int (dataOffset headerEl) + dataSize headerEl
          in if elementEnd \<le> int (length batchData) then
               (let elementData = slice batchData localOffset elementEnd
                in case parseElementHeader elementData 0 of
                     Inl e \<Rightarrow> (None, reader)
                   | Inr el \<Rightarrow> (Some (elementData, el), reader))
             else
               (let elementSize = int (dataOffset headerEl) - localOffset + dataSize headerEl
                in case read fetchFn reader (absPos target) elementSize of
                     (Inl e, r1) \<Rightarrow> (None, r1)
                   | (Inr elementData, r1) \<Rightarrow>
                       (case parseElementHeader elementData 0 of
                          Inl e \<Rightarrow> (None, r1)
                        | Inr el \<Rightarrow> (Some (elementData, el), r1))))"

text \<open>The loop over the targets of a batch in \<open>processBatch\<close>.\<close>

fun batchTargets ::
  "fetch \<Rightarrow> int option set \<Rightarrow> jsnum \<Rightarrow> bytes \<Rightarrow> int \<Rightarrow> RangeReader \<Rightarrow> BlockTarget list
   \<Rightarrow> SubtitleBlock list \<Rightarrow> (js_error + SubtitleBlock list) \<times> RangeReader" where
  "batchTargets fetchFn subtitleTrackNumbers tsMultiplier batchData readStart reader [] batchBlocks =
     (Inr batchBlocks, reader)"
| "batchTargets fetchFn subtitleTrackNumbers tsMultiplier batchData readStart reader (target # targets)
     batchBlocks =
     (if int (length batchData) - (absPos target - readStart) < HEADER_READ_SIZE
      then batchTargets fetchFn subtitleTrackNumbers tsMultiplier batchData readStart reader targets
             batchBlocks
      else
        (case locateElement fetchFn batchData (absPos target - readStart) reader target of
           (None, r1) \<Rightarrow>
             batchTargets fetchFn subtitleTrackNumbers tsMultiplier batchData readStart r1 targets
               batchBlocks
         | (Some (elementData, el), r1) \<Rightarrow>
             (case parseBlockElement elementData el
                     (js_mul (num (cue_time (entry target))) tsMultiplier)
                     subtitleTrackNumbers tsMultiplier of
                Inl e \<Rightarrow> (Inl e, r1)
              | Inr block \<Rightarrow>
                  batchTargets fetchFn subtitleTrackNumbers tsMultiplier batchData readStart r1 targets
                    (batchBlocks @ (case block of None \<Rightarrow> [] | Some b \<Rightarrow> [b])))))"

definition processBatch ::
  "fetch \<Rightarrow> int option set \<Rightarrow> jsnum \<Rightarrow> RangeReader \<Rightarrow> BlockTarget list
   \<Rightarrow> (js_error + SubtitleBlock list) \<times> RangeReader" where
  "processBatch fetchFn subtitleTrackNumbers tsMultiplier reader batch =
     (case batchRange batch of
        (readStart, len) \<Rightarrow>
          bindR (read fetchFn reader readStart len) (\<lambda>batchData r1.
            batchTargets fetchFn subtitleTrackNumbers tsMultiplier batchData readStart r1 batch []))"

text \<open>The sequential loop \<open>for (const batch of batches) blocks.push(...await processBatch(batch))\<close>.\<close>

fun processBatches ::
  "fetch \<Rightarrow> int option set \<Rightarrow> jsnum \<Rightarrow> RangeReader \<Rightarrow> BlockTarget list list \<Rightarrow> SubtitleBlock list
   \<Rightarrow> (js_error + SubtitleBlock list) \<times> RangeReader" where
  "processBatches fetchFn subtitleTrackNumbers tsMultiplier reader [] blocks = (Inr blocks, reader)"
| "processBatches fetchFn subtitleTrackNumbers tsMultiplier reader (batch # batches) blocks =
     (case processBatch fetchFn subtitleTrackNumbers tsMultiplier reader batch of
        (Inl e, r1) \<Rightarrow> (Inl e, r1)
      | (Inr batchBlocks, r1) \<Rightarrow>
          processBatches fetchFn subtitleTrackNumbers tsMultiplier r1 batches (blocks @ batchBlocks))"

text \<open>The loop over the fallback clusters, by their positions.\<close>

fun fallbackLoop ::
  "fetch \<Rightarrow> nat \<Rightarrow> int option set \<Rightarrow> jsnum \<Rightarrow> RangeReader \<Rightarrow> int list \<Rightarrow> SubtitleBlock list
   \<Rightarrow> (js_error + SubtitleBlock list) \<times> RangeReader" where
  "fallbackLoop fetchFn segOff subtitleTrackNumbers tsMultiplier reader [] blocks = (Inr blocks, reader)"
| "fallbackLoop fetchFn segOff subtitleTrackNumbers tsMultiplier reader (clusterPos # rest) blocks =
     (case read fetchFn reader (int segOff + clusterPos) HEADER_READ_SIZE of
        (Inl e, r1) \<Rightarrow> (Inl e, r1)
      | (Inr headerBuf, r1) \<Rightarrow>
          (case parseElementHeader headerBuf 0 of
             Inl e \<Rightarrow> (Inl e, r1)
           | Inr clusterEl \<Rightarrow>
               (case processCluster fetchFn r1
                       (int segOff + clusterPos + int (dataOffset clusterEl))
                       (if unknownSize clusterEl then fileSize r1
                        else int segOff + clusterPos + int (dataOffset clusterEl) + dataSize clusterEl)
                       (unknownSize clusterEl) subtitleTrackNumbers tsMultiplier of
                  (Inl e, r2) \<Rightarrow> (Inl e, r2)
                | (Inr (clusterBlocks, nextOffset), r2) \<Rightarrow>
                    fallbackLoop fetchFn segOff subtitleTrackNumbers tsMultiplier r2 rest
                      (blocks @ clusterBlocks))))"

text \<open>
  The \<open>Map\<close> from cluster position to its entries, in insertion order. A \<open>NaN\<close> key
  equals itself in a \<open>Map\<close>.
\<close>

definition groupByCluster :: "CueEntry list \<Rightarrow> (int option \<times> CueEntry list) list" where
  "groupByCluster cueEntries =
     foldl (\<lambda>groups e.
              if clusterPosition e \<in> set (map fst groups)
              then map (\<lambda>(k, es). if k = clusterPosition e then (k, es @ [e]) else (k, es)) groups
              else groups @ [(clusterPosition e, [e])])
       [] cueEntries"

definition directTargetsOf :: "nat \<Rightarrow> nat \<Rightarrow> int option \<times> CueEntry list \<Rightarrow> BlockTarget list" where
  "directTargetsOf segOff clusterHeaderSize = (\<lambda>(clusterPos, entries).
     if list_all (\<lambda>e. relativePosition e \<noteq> None) entries
     then concat (map (\<lambda>e. case (clusterPos, relativePosition e) of
                              (Some cp, Some (Some rel)) \<Rightarrow>
                                [\<lparr>absPos = int segOff + cp + int clusterHeaderSize + rel, entry = e\<rparr>]
                            | _ \<Rightarrow> []) entries)
     else [])"

definition fallbackClustersOf :: "int option \<times> CueEntry list \<Rightarrow> int list" where
  "fallbackClustersOf = (\<lambda>(clusterPos, entries).
     if list_all (\<lambda>e. relativePosition e \<noteq> None) entries then []
     else (case clusterPos of Some cp \<Rightarrow> [cp] | None \<Rightarrow> []))"

definition byAbsPos :: "BlockTarget \<Rightarrow> BlockTarget \<Rightarrow> jsnum" where
  "byAbsPos a b = Num (real_of_int (absPos a - absPos b))"

text \<open>
  \<open>readTargetedBlocks\<close>. Two kinds of execution are not followed: those with a \<open>NaN\<close>
  position in a Cue entry, and those where more than one worker fetches batches
  concurrently (the order in which their reads use the reader then depends on the timing
  of the responses). With one worker, or one batch, the batches are fetched in order.
\<close>

definition readTargetedBlocks ::
  "fetch \<Rightarrow> RangeReader \<Rightarrow> nat \<Rightarrow> CueEntry list \<Rightarrow> int option set \<Rightarrow> int option \<Rightarrow> int option
   \<Rightarrow> (js_error + SubtitleBlock list) \<times> RangeReader" where
  "readTargetedBlocks fetchFn reader segOff cueEntries subtitleTrackNumbers tsScale concurrency =
     (let tsMultiplier = js_div (num tsScale) (Num 1000000);
          workers = max 1 (case concurrency of None \<Rightarrow> 1 | Some c \<Rightarrow> c);
          clusterGroups = groupByCluster cueEntries
      in case cueEntries of
           [] \<Rightarrow> (Inl (Error ''TypeError: cueEntries[0] is undefined''), reader)
         | first # others \<Rightarrow>
             (case clusterPosition first of
                None \<Rightarrow> (Inl (Unmodelled ''NaN position''), reader)
              | Some firstClusterPos \<Rightarrow>
                  if \<not> list_all (\<lambda>e. clusterPosition e \<noteq> None \<and> relativePosition e \<noteq> Some None)
                           cueEntries
                  then (Inl (Unmodelled ''NaN position''), reader)
                  else
                    bindR (read fetchFn reader (int segOff + firstClusterPos) HEADER_READ_SIZE)
                      (\<lambda>probeBuf r1.
                    bindR (liftR (parseElementHeader probeBuf 0) r1) (\<lambda>probeEl r1.
                      let clusterHeaderSize = dataOffset probeEl;
                          directTargets =
                            sortBy byAbsPos
                              (concat (map (directTargetsOf segOff clusterHeaderSize) clusterGroups));
                          fallbackClusters = concat (map fallbackClustersOf clusterGroups);
                          batches = (if directTargets \<noteq> []
                                     then groupIntoBatches directTargets
                                            (computeBatchThreshold directTargets)
                                     else [])
                      in if workers > 1 \<and> length batches > 1
                         then (Inl (Unmodelled ''concurrent workers''), r1)
                         else
                           bindR (processBatches fetchFn subtitleTrackNumbers tsMultiplier r1 batches [])
                             (\<lambda>blocks r2.
                           bindR (fallbackLoop fetchFn segOff subtitleTrackNumbers tsMultiplier r2
                                    fallbackClusters blocks) (\<lambda>blocks r3.
                             (Inr (sortBy byTimestamp blocks), r3)))))))"

section \<open>index.ts: extractSubtitles\<close>

text \<open>
  The options other than the injected \<open>fetch\<close>; a field that is \<open>undefined\<close> is \<open>None\<close>,
  and options that are \<open>undefined\<close> altogether have every field \<open>None\<close>. The \<open>verbose\<close>
  log is not part of the model.
\<close>

record ExtractOptions =
  opt_allowFullDownload :: "bool option"
  opt_languages :: "string list option"
  opt_headers :: "(string \<times> string) list option"
  opt_verbose :: "bool option"
  opt_concurrency :: "int option"

text \<open>A \<open>TrackResult\<close>, with the fields of \<open>metadata\<close> and \<open>output\<close> side by side.\<close>

record TrackResult =
  tr_type :: SubtitleFormat
  meta_trackNumber :: "int option"
  meta_language :: "string option"
  meta_trackName :: "string option"
  out_fonts :: "FontFile list option"
  out_subtitle :: bytes

text \<open>Step 5: the language filter.\<close>

definition filterTracks :: "string list option \<Rightarrow> SubtitleTrackInfo list \<Rightarrow> SubtitleTrackInfo list" where
  "filterTracks languages subtitleTracks =
     (case languages of
        None \<Rightarrow> subtitleTracks
      | Some ls \<Rightarrow>
          if length ls \<noteq> 0 then
            (let langs = set (map toLowerCase ls)
             in filter (\<lambda>t. case language t of
                               None \<Rightarrow> False
                             | Some l \<Rightarrow> l \<noteq> [] \<and> toLowerCase l \<in> langs) subtitleTracks)
          else subtitleTracks)"

definition linearScan ::
  "fetch \<Rightarrow> RangeReader \<Rightarrow> nat \<Rightarrow> int \<Rightarrow> SeekEntry option \<Rightarrow> int option set \<Rightarrow> int option
   \<Rightarrow> (js_error + SubtitleBlock list) \<times> RangeReader" where
  "linearScan fetchFn reader segOff segSize clusterEntry trackNumbers tsScale =
     (let segmentEnd = int segOff + segSize
      in case clusterEntry of
           None \<Rightarrow> scanClusters fetchFn reader (int segOff) segmentEnd trackNumbers tsScale
         | Some ce \<Rightarrow>
             (case position ce of
                None \<Rightarrow> (Inl (Unmodelled ''NaN position''), reader)
              | Some pos \<Rightarrow>
                  scanClusters fetchFn reader (int segOff + pos) segmentEnd trackNumbers tsScale))"

text \<open>Step 7: the blocks, through the Cues or by the linear scan.\<close>

definition fetchBlocks ::
  "fetch \<Rightarrow> RangeReader \<Rightarrow> SegmentParseResult \<Rightarrow> int option set \<Rightarrow> int option
   \<Rightarrow> (js_error + SubtitleBlock list) \<times> RangeReader" where
  "fetchBlocks fetchFn reader seg trackNumbers concurrency =
     (let cuesEntry = find (\<lambda>e. seek_id e = CUES) (seekEntries seg);
          clusterEntry = find (\<lambda>e. seek_id e = CLUSTER) (seekEntries seg)
      in case cuesEntry of
           Some ce \<Rightarrow>
             (case position ce of
                None \<Rightarrow> (Inl (Unmodelled ''NaN position''), reader)
              | Some cuesPos \<Rightarrow>
                  bindR (parseCues fetchFn reader (segmentDataOffset seg) cuesPos) (\<lambda>allCues r1.
                    let subtitleCues = filter (\<lambda>c. cue_track c \<in> trackNumbers) allCues
                    in if length subtitleCues > 0
                       then readTargetedBlocks fetchFn r1 (segmentDataOffset seg) subtitleCues
                              trackNumbers (timestampScale (info seg)) concurrency
                       else linearScan fetchFn r1 (segmentDataOffset seg) (segmentDataSize seg)
                              clusterEntry trackNumbers (timestampScale (info seg))))
         | None \<Rightarrow>
             linearScan fetchFn reader (segmentDataOffset seg) (segmentDataSize seg) clusterEntry
               trackNumbers (timestampScale (info seg)))"

text \<open>Step 8: the result for one track.\<close>

definition trackResult ::
  "Platform \<Rightarrow> FontFile list \<Rightarrow> SubtitleBlock list \<Rightarrow> SubtitleTrackInfo \<Rightarrow> TrackResult" where
  "trackResult P fonts blocks track =
     (let trackBlocks = filter (\<lambda>b. Some (trackNumber b) = ti_trackNumber track) blocks;
          subtitle = assembleSubtitle P track trackBlocks;
          needsFonts = (codecId track = ''S_TEXT/ASS'' \<or> codecId track = ''S_TEXT/SSA'')
      in \<lparr>tr_type = getSubtitleFormat (codecId track),
          meta_trackNumber = ti_trackNumber track,
          meta_language = language track,
          meta_trackName = trackName track,
          out_fonts = (if needsFonts then Some fonts else None),
          out_subtitle = subtitle\<rparr>)"

text \<open>Steps 4 to 8, from the subtitle tracks on.\<close>

definition extractTracks ::
  "Platform \<Rightarrow> fetch \<Rightarrow> RangeReader \<Rightarrow> SegmentParseResult \<Rightarrow> ExtractOptions
   \<Rightarrow> SubtitleTrackInfo list \<Rightarrow> (js_error + TrackResult list) \<times> RangeReader" where
  "extractTracks P fetchFn reader seg options subtitleTracks =
     (if length subtitleTracks = 0 then (Inr [], reader)
      else
        let filteredTracks = filterTracks (opt_languages options) subtitleTracks
        in if length filteredTracks = 0 then (Inr [], reader)
           else
             bindR (case find (\<lambda>e. seek_id e = ATTACHMENTS) (seekEntries seg) of
                      None \<Rightarrow> (Inr [], reader)
                    | Some ae \<Rightarrow>
                        (case position ae of
                           None \<Rightarrow> (Inl (Unmodelled ''NaN position''), reader)
                         | Some attPos \<Rightarrow>
                             parseAttachments P fetchFn reader (segmentDataOffset seg) attPos))
               (\<lambda>fonts r1.
                  bindR (fetchBlocks fetchFn r1 seg (set (map ti_trackNumber filteredTracks))
                           (opt_concurrency options)) (\<lambda>blocks r2.
                    (Inr (map (trackResult P fonts blocks) filteredTracks), r2))))"

definition extractSubtitles ::
  "Platform \<Rightarrow> fetch \<Rightarrow> string \<Rightarrow> ExtractOptions \<Rightarrow> (js_error + TrackResult list) \<times> RangeReader" where
  "extractSubtitles P fetchFn u options =
     bindR (init fetchFn (newRangeReader u (opt_allowFullDownload options) (opt_headers options)))
       (\<lambda>done reader.
     bindR (parseSegment fetchFn reader) (\<lambda>seg r1.
       case find (\<lambda>e. seek_id e = TRACKS) (seekEntries seg) of
         None \<Rightarrow> (Inl (MkvParseError ''No Tracks element found in SeekHead''), r1)
       | Some tracksEntry \<Rightarrow>
           (case position tracksEntry of
              None \<Rightarrow> (Inl (Unmodelled ''NaN position''), r1)
            | Some tracksPos \<Rightarrow>
                bindR (parseTracks P fetchFn r1 (segmentDataOffset seg) tracksPos)
                  (\<lambda>subtitleTracks r2. extractTracks P fetchFn r2 seg options subtitleTracks))))"

section \<open>A small Matroska file for the examples\<close>

text \<open>A server that holds the given file and honours Range requests.\<close>

definition fileServer :: "bytes \<Rightarrow> fetch" where
  "fileServer file req =
     (case req_range req of
        Some (a, b) \<Rightarrow>
          Inr \<lparr>status = 206,
               contentRange = Some (''bytes '' @ showInt a @ ''-''
                                    @ showInt (min b (int (length file) - 1)) @ ''/''
                                    @ showInt (int (length file))),
               body = slice file a (min b (int (length file) - 1) + 1)\<rparr>
      | None \<Rightarrow> Inr \<lparr>status = 200, contentRange = None, body = file\<rparr>)"

text \<open>
  A cluster with the given ClusterTimestamp byte that holds one SimpleBlock of track 1
  with the given two bytes of relative timestamp and the payload \<open>Hello\<close>.
\<close>

definition exampleCluster :: "byte \<Rightarrow> byte \<Rightarrow> byte \<Rightarrow> bytes" where
  "exampleCluster ts hi lo =
     [0x1F, 0x43, 0xB6, 0x75, 0x8E,
      0xE7, 0x81, ts,
      0xA3, 0x89, 0x81, hi, lo, 0x00, 0x48, 0x65, 0x6C, 0x6C, 0x6F]"

text \<open>
  A file of 93 bytes: an empty EBML header; a Segment with a SeekHead that points to the
  Tracks at 38 and to the first Cluster at 64, an empty Info, the Tracks with one
  subtitle track (number 1, codec \<open>S_TEXT/UTF8\<close>), and the example cluster.
\<close>

definition exampleFile :: "byte \<Rightarrow> byte \<Rightarrow> byte \<Rightarrow> bytes" where
  "exampleFile ts hi lo =
     [0x1A, 0x45, 0xDF, 0xA3, 0x80,
      0x18, 0x53, 0x80, 0x67, 0xD3,
      0x11, 0x4D, 0x9B, 0x74, 0x9C,
      0x4D, 0xBB, 0x8B, 0x53, 0xAB, 0x84, 0x16, 0x54, 0xAE, 0x6B, 0x53, 0xAC, 0x81, 0x26,
      0x4D, 0xBB, 0x8B, 0x53, 0xAB, 0x84, 0x1F, 0x43, 0xB6, 0x75, 0x53, 0xAC, 0x81, 0x40,
      0x15, 0x49, 0xA9, 0x66, 0x80,
      0x16, 0x54, 0xAE, 0x6B, 0x95,
      0xAE, 0x93, 0xD7, 0x81, 0x01, 0x83, 0x81, 0x11,
      0x86, 0x8B, 0x53, 0x5F, 0x54, 0x45, 0x58, 0x54, 0x2F, 0x55, 0x54, 0x46, 0x38]
     @ exampleCluster ts hi lo"

definition noOptions :: ExtractOptions where
  "noOptions = \<lparr>opt_allowFullDownload = None, opt_languages = None, opt_headers = None,
                opt_verbose = None, opt_concurrency = None\<rparr>"

section \<open>Predicates on blocks\<close>






chapter \<open>Verified properties\<close>

section \<open>Variable-length integers\<close>














section \<open>Fonts among the attachments\<close>

lemma matchExtension_char:
  "matchExtension s =
     (if CHR ''.'' \<in> set s \<and> takeWhile (\<lambda>c. c \<noteq> CHR ''.'') (rev s) \<noteq> []
      then Some (CHR ''.'' # rev (takeWhile (\<lambda>c. c \<noteq> CHR ''.'') (rev s))) else None)"
proof (induction s)
  case Nil
  then show ?case by simp
next
  case (Cons c cs)
  show ?case
  proof (cases "CHR ''.'' \<in> set cs")
    case True
    then have "takeWhile (\<lambda>c. c \<noteq> CHR ''.'') (rev cs @ [c]) = takeWhile (\<lambda>c. c \<noteq> CHR ''.'') (rev cs)"
      by (auto simp: takeWhile_append1 dest: split_list)
    moreover have "\<not> list_all (\<lambda>d. d \<noteq> CHR ''.'') cs" using True by (auto simp: list_all_iff)
    ultimately show ?thesis using Cons True by simp
  next
    case False
    then have tw: "takeWhile (\<lambda>c. c \<noteq> CHR ''.'') (rev cs @ [c])
                   = rev cs @ takeWhile (\<lambda>c. c \<noteq> CHR ''.'') [c]"
      by (intro takeWhile_append2) auto
    have all: "list_all (\<lambda>d. d \<noteq> CHR ''.'') cs" using False by (auto simp: list_all_iff)
    have none: "matchExtension cs = None" using Cons False by simp
    show ?thesis using False tw all none by (cases "c = CHR ''.''") auto
  qed
qed

lemma isFontFile_spec: "isFontFile mimeType fileName = spec_isFont mimeType fileName"
proof -
  have nonempty: "ext \<in> set FONT_EXTENSIONS \<Longrightarrow> ext \<noteq> ''.''" for ext
    by (auto simp: FONT_EXTENSIONS_def)
  show ?thesis
    unfolding isFontFile_def spec_isFont_def lastExtension_def matchExtension_char
    by (auto dest: nonempty)
qed

text \<open>
  Claim C8. An attached file is a name, a MIME type and its data (an AttachedFile element
  that has no FileData child carries no file, and \<open>parseAttachments\<close> skips it). The file
  is kept, as the font of that name and data, exactly when its lower-cased MIME type is
  in the closed set or the lower-cased last extension of its name is one of \<open>.ttf\<close>,
  \<open>.otf\<close>, \<open>.woff\<close>, \<open>.woff2\<close>; a file \<open>Arial.ttf\<close> of type \<open>application/octet-stream\<close>
  is kept.
\<close>

theorem attached_file_kept_iff_font:
  "keepFont (fileName, mimeType, Some fileData) =
     (if toLowerCase mimeType \<in> set FONT_MIME_TYPES
         \<or> (\<exists>ext. ext \<in> set FONT_EXTENSIONS \<and> lastExtension (toLowerCase fileName) = Some ext)
      then [\<lparr>font_name = fileName, font_data = fileData\<rparr>] else [])
   \<and> keepFont (''Arial.ttf'', ''application/octet-stream'', Some fileData)
       = [\<lparr>font_name = ''Arial.ttf'', font_data = fileData\<rparr>]"
proof
  show "keepFont (fileName, mimeType, Some fileData) =
     (if toLowerCase mimeType \<in> set FONT_MIME_TYPES
         \<or> (\<exists>ext. ext \<in> set FONT_EXTENSIONS \<and> lastExtension (toLowerCase fileName) = Some ext)
      then [\<lparr>font_name = fileName, font_data = fileData\<rparr>] else [])"
    using isFontFile_spec[of mimeType fileName] by (simp add: spec_isFont_def)
  have "isFontFile ''application/octet-stream'' ''Arial.ttf''"
    by (simp add: isFontFile_def toLowerCase_def lowerChar_def FONT_MIME_TYPES_def
        FONT_EXTENSIONS_def)
  then show "keepFont (''Arial.ttf'', ''application/octet-stream'', Some fileData)
       = [\<lparr>font_name = ''Arial.ttf'', font_data = fileData\<rparr>]"
    by simp
qed

section \<open>The adaptive batch threshold\<close>





section \<open>Sorting with a numeric comparator\<close>








lemma latin1_roundtrip: "utf8Decode latin1 (utf8Encode latin1 s) = s"
proof -
  have "char_of (unat (of_nat (of_char c) :: byte)) = c" for c :: char
  proof -
    have "(of_char c :: nat) < 256" by simp
    then have "unat (of_nat (of_char c) :: byte) = of_char c"
      by (simp add: unat_of_nat take_bit_nat_eq_self)
    then show ?thesis by simp
  qed
  then show ?thesis by (simp add: latin1_def comp_def map_idI)
qed




section \<open>Re-parsing a Dialogue line\<close>

lemma splitCommas_field:
  assumes "CHR '','' \<notin> set p"
  shows "splitCommas (Suc n) (p @ CHR '','' # rest) =
           (case splitCommas n rest of None \<Rightarrow> None | Some (ps, t) \<Rightarrow> Some (p # ps, t))"
proof -
  have "takeWhile (\<lambda>c. c \<noteq> CHR '','') (p @ CHR '','' # rest) = p"
    using assms by (auto simp add: takeWhile_append2 takeWhile_tail)
  moreover have "dropWhile (\<lambda>c. c \<noteq> CHR '','') (p @ CHR '','' # rest) = CHR '','' # rest"
    using assms by (auto simp add: dropWhile_append2 dropWhile_append3)
  ultimately show ?thesis by (simp split: option.splits)
qed

lemma splitCommas_parts:
  "splitCommas n s = Some (ps, t) \<Longrightarrow> length ps = n \<and> (\<forall>p\<in>set ps. CHR '','' \<notin> set p)"
proof (induction n arbitrary: s ps t)
  case 0
  then show ?case by simp
next
  case (Suc n)
  from Suc.prems obtain ps' where
    rec: "splitCommas n (tl (dropWhile (\<lambda>c. c \<noteq> CHR '','') s)) = Some (ps', t)"
    and ps: "ps = takeWhile (\<lambda>c. c \<noteq> CHR '','') s # ps'"
    by (auto split: if_splits option.splits)
  have "CHR '','' \<notin> set (takeWhile (\<lambda>c. c \<noteq> CHR '','') s)"
    by (auto dest: set_takeWhileD)
  with Suc.IH[OF rec] ps show ?case by auto
qed

lemma parseAssBlockPayload_no_comma:
  assumes "parseAssBlockPayload text = Some f"
  shows "CHR '','' \<notin> set (layer f)" "CHR '','' \<notin> set (style f)" "CHR '','' \<notin> set (name f)"
    "CHR '','' \<notin> set (marginL f)" "CHR '','' \<notin> set (marginR f)" "CHR '','' \<notin> set (marginV f)"
    "CHR '','' \<notin> set (effect f)"
proof -
  from assms obtain ps t where s: "splitCommas 8 text = Some (ps, t)"
    and f: "f = \<lparr>readOrder = parseInt10 (ps ! 0), layer = ps ! 1, style = ps ! 2,
                name = ps ! 3, marginL = ps ! 4, marginR = ps ! 5, marginV = ps ! 6,
                effect = ps ! 7, dialogueText = t\<rparr>"
    by (auto simp: parseAssBlockPayload_def split: option.splits)
  from splitCommas_parts[OF s] have len: "length ps = 8" and nc: "\<forall>p\<in>set ps. CHR '','' \<notin> set p"
    by simp_all
  have "\<And>i. i < 8 \<Longrightarrow> CHR '','' \<notin> set (ps ! i)" using len nc by simp
  then show "CHR '','' \<notin> set (layer f)" "CHR '','' \<notin> set (style f)" "CHR '','' \<notin> set (name f)"
    "CHR '','' \<notin> set (marginL f)" "CHR '','' \<notin> set (marginR f)" "CHR '','' \<notin> set (marginV f)"
    "CHR '','' \<notin> set (effect f)"
    by (simp_all add: f)
qed

lemma showNat_digits: "set (showNat n) \<subseteq> set ''0123456789''"
proof (induction n rule: showNat.induct)
  case (1 n)
  have d: "digitChar k \<in> set ''0123456789''" if "k < 10" for k
  proof -
    from that have "k \<in> {0, 1, 2, 3, 4, 5, 6, 7, 8, 9}" by auto
    then show ?thesis by (auto simp: digitChar_def)
  qed
  show ?case
  proof (cases "n < 10")
    case True
    then show ?thesis using d[of n] by (subst showNat.simps) simp
  next
    case False
    then show ?thesis using 1 d[of "n mod 10"] by (subst showNat.simps) auto
  qed
qed

lemma jsString_no_comma: "CHR '','' \<notin> set (jsString x)"
proof (cases x)
  case None
  then show ?thesis by simp
next
  case (Some i)
  have "CHR '','' \<notin> set (showNat k)" for k using showNat_digits[of k] by auto
  then show ?thesis using Some by (simp add: showInt_def)
qed

lemma padStart_no_comma: "CHR '','' \<notin> set s \<Longrightarrow> CHR '','' \<notin> set (padStart n CHR ''0'' s)"
  by (simp add: padStart_def)

lemma formatAssTimestamp_no_comma: "CHR '','' \<notin> set (formatAssTimestamp ms)"
  by (simp add: formatAssTimestamp_def Let_def jsString_no_comma padStart_no_comma)

lemma parseInt10_Dialogue: "parseInt10 (''Dialogue: '' @ s) = None"
  by (simp add: parseInt10_def isSpace_def isDigit_def)

lemma splitCommas_fields:
  assumes "\<forall>p\<in>set ps. CHR '','' \<notin> set p"
  shows "splitCommas (length ps) (concat (map (\<lambda>p. p @ [CHR '','']) ps) @ rest) = Some (ps, rest)"
  using assms
proof (induction ps)
  case Nil
  then show ?case by simp
next
  case (Cons p ps)
  then have nc: "CHR '','' \<notin> set p" and ih: "splitCommas (length ps) (concat (map (\<lambda>p. p @ [CHR '','']) ps) @ rest) = Some (ps, rest)"
    by simp_all
  have "splitCommas (Suc (length ps)) (p @ CHR '','' # (concat (map (\<lambda>p. p @ [CHR '','']) ps) @ rest))
          = Some (p # ps, rest)"
    by (simp only: splitCommas_field[OF nc] ih option.case prod.case)
  then show ?case by simp
qed

lemma reparse_dialogueLine:
  assumes "CHR '','' \<notin> set (layer f)" "CHR '','' \<notin> set (style f)" "CHR '','' \<notin> set (name f)"
    "CHR '','' \<notin> set (marginL f)" "CHR '','' \<notin> set (marginR f)" "CHR '','' \<notin> set (marginV f)"
    and "CHR '','' \<notin> set start" "CHR '','' \<notin> set end"
  shows "parseAssBlockPayload (dialogueLine f start end lineEnding) =
           Some \<lparr>readOrder = None, layer = start, style = end, name = style f,
                 marginL = name f, marginR = marginL f, marginV = marginR f, effect = marginV f,
                 dialogueText = effect f @ '','' @ dialogueText f @ lineEnding\<rparr>"
proof -
  let ?ps = "[''Dialogue: '' @ layer f, start, end, style f, name f, marginL f, marginR f, marginV f]"
  let ?rest = "effect f @ '','' @ dialogueText f @ lineEnding"
  have e: "splitCommas (length ?ps) (concat (map (\<lambda>p. p @ [CHR '','']) ?ps) @ ?rest) = Some (?ps, ?rest)"
    by (rule splitCommas_fields) (use assms in simp)
  have l: "length ?ps = 8" by simp
  have c: "concat (map (\<lambda>p. p @ [CHR '','']) ?ps) @ ?rest = dialogueLine f start end lineEnding"
    by (simp add: dialogueLine_def)
  from e have "splitCommas 8 (dialogueLine f start end lineEnding) = Some (?ps, ?rest)"
    unfolding l c .
  then show ?thesis
    using parseInt10_Dialogue[of "layer f"] by (simp add: parseAssBlockPayload_def)
qed

text \<open>
  Claim C3, as the code has it. For a block whose payload parses, the Dialogue line that
  \<open>assembleAss\<close> emits parses again, but not to the original tuple: the line starts with
  \<open>Dialogue: \<close> and the Layer, carries Start and End in second and third place, and has
  no ReadOrder. Re-parsing yields a \<open>NaN\<close> ReadOrder, Start and End as Layer and Style,
  the original Style, Name, MarginL, MarginR and MarginV one field later (as Name,
  MarginL, MarginR, MarginV and Effect), and as Text the original Effect, a comma, the
  original Text with all its commas, and the line ending.
\<close>

theorem dialogue_line_reparses_shifted:
  assumes "parseAssBlockPayload (utf8Decode P (blk_data block)) = Some f"
  shows "parseAssBlockPayload (assDialogue lineEnding (f, block)) =
           Some \<lparr>readOrder = None,
                 layer = formatAssTimestamp (timestampMs block),
                 style = formatAssTimestamp (blockEnd block),
                 name = style f, marginL = name f, marginR = marginL f, marginV = marginR f,
                 effect = marginV f,
                 dialogueText = effect f @ '','' @ dialogueText f @ lineEnding\<rparr>"
  unfolding assDialogue_def prod.case
  by (rule reparse_dialogueLine)
     (simp_all add: parseAssBlockPayload_no_comma[OF assms] formatAssTimestamp_no_comma)

lemma parse_commas_example:
  "parseAssBlockPayload ''5,0,S,,0,0,0,,Hello, world, foo'' =
     Some \<lparr>readOrder = Some 5, layer = ''0'', style = ''S'', name = [], marginL = ''0'',
           marginR = ''0'', marginV = ''0'', effect = [], dialogueText = ''Hello, world, foo''\<rparr>"
  by (simp add: parseAssBlockPayload_def parseInt10_def isSpace_def isDigit_def
      digitsValue_def digitValue_def eval_nat_numeral)

lemma formatAssTimestamp_1000: "formatAssTimestamp (Num 1000) = ''0:00:01.00''"
  by (simp add: formatAssTimestamp_def padStart_def showInt_def showNat.simps digitChar_def)

text \<open>
  The theorem at the block of the specification's third scenario (payload
  \<open>5,0,S,,0,0,0,,Hello, world, foo\<close>) at 1000 ms.
\<close>

theorem dialogue_line_reparses_shifted_witness:
  "parseAssBlockPayload
     (utf8Decode latin1 (blk_data (exampleBlock 1000 ''5,0,S,,0,0,0,,Hello, world, foo'')))
     = Some \<lparr>readOrder = Some 5, layer = ''0'', style = ''S'', name = [], marginL = ''0'',
             marginR = ''0'', marginV = ''0'', effect = [], dialogueText = ''Hello, world, foo''\<rparr>
   \<and> parseAssBlockPayload
       (assDialogue [CHR 0x0A]
          (\<lparr>readOrder = Some 5, layer = ''0'', style = ''S'', name = [], marginL = ''0'',
            marginR = ''0'', marginV = ''0'', effect = [], dialogueText = ''Hello, world, foo''\<rparr>,
           exampleBlock 1000 ''5,0,S,,0,0,0,,Hello, world, foo''))
     = Some \<lparr>readOrder = None, layer = ''0:00:01.00'', style = ''0:00:01.00'', name = ''S'',
             marginL = [], marginR = ''0'', marginV = ''0'', effect = ''0'',
             dialogueText = '',Hello, world, foo'' @ [CHR 0x0A]\<rparr>"
proof -
  have h: "parseAssBlockPayload
     (utf8Decode latin1 (blk_data (exampleBlock 1000 ''5,0,S,,0,0,0,,Hello, world, foo'')))
     = Some \<lparr>readOrder = Some 5, layer = ''0'', style = ''S'', name = [], marginL = ''0'',
             marginR = ''0'', marginV = ''0'', effect = [], dialogueText = ''Hello, world, foo''\<rparr>"
    by (simp add: exampleBlock_def latin1_roundtrip parse_commas_example)
  have t: "timestampMs (exampleBlock 1000 s) = Num 1000" "blockEnd (exampleBlock 1000 s) = Num 1000" for s
    by (simp_all add: exampleBlock_def blockEnd_def)
  from dialogue_line_reparses_shifted[OF h, of "[CHR 0x0A]"] h show ?thesis
    by (simp add: t formatAssTimestamp_1000)
qed

text \<open>
  Claim C3 as stated fails at that block: the payload parses to ReadOrder 5 and Text
  \<open>Hello, world, foo\<close>, the Dialogue line emitted for it is the one below, and parsing
  that line back gives no ReadOrder (\<open>NaN\<close>) and a Text with a leading comma and the line
  ending.
\<close>

theorem dialogue_roundtrip_counterexample:
  "parseAssBlockPayload ''5,0,S,,0,0,0,,Hello, world, foo''
     = Some \<lparr>readOrder = Some 5, layer = ''0'', style = ''S'', name = [], marginL = ''0'',
             marginR = ''0'', marginV = ''0'', effect = [], dialogueText = ''Hello, world, foo''\<rparr>
   \<and> assDialogue [CHR 0x0A]
        (\<lparr>readOrder = Some 5, layer = ''0'', style = ''S'', name = [], marginL = ''0'',
          marginR = ''0'', marginV = ''0'', effect = [], dialogueText = ''Hello, world, foo''\<rparr>,
         exampleBlock 1000 ''5,0,S,,0,0,0,,Hello, world, foo'')
     = ''Dialogue: 0,0:00:01.00,0:00:01.00,S,,0,0,0,,Hello, world, foo'' @ [CHR 0x0A]
   \<and> parseAssBlockPayload (''Dialogue: 0,0:00:01.00,0:00:01.00,S,,0,0,0,,Hello, world, foo'' @ [CHR 0x0A])
     = Some \<lparr>readOrder = None, layer = ''0:00:01.00'', style = ''0:00:01.00'', name = ''S'',
             marginL = [], marginR = ''0'', marginV = ''0'', effect = ''0'',
             dialogueText = '',Hello, world, foo'' @ [CHR 0x0A]\<rparr>"
proof (intro conjI)
  show "parseAssBlockPayload ''5,0,S,,0,0,0,,Hello, world, foo''
     = Some \<lparr>readOrder = Some 5, layer = ''0'', style = ''S'', name = [], marginL = ''0'',
             marginR = ''0'', marginV = ''0'', effect = [], dialogueText = ''Hello, world, foo''\<rparr>"
    by (rule parse_commas_example)
  show "assDialogue [CHR 0x0A]
        (\<lparr>readOrder = Some 5, layer = ''0'', style = ''S'', name = [], marginL = ''0'',
          marginR = ''0'', marginV = ''0'', effect = [], dialogueText = ''Hello, world, foo''\<rparr>,
         exampleBlock 1000 ''5,0,S,,0,0,0,,Hello, world, foo'')
     = ''Dialogue: 0,0:00:01.00,0:00:01.00,S,,0,0,0,,Hello, world, foo'' @ [CHR 0x0A]"
    by (simp add: assDialogue_def dialogueLine_def exampleBlock_def blockEnd_def
        formatAssTimestamp_1000)
  show "parseAssBlockPayload (''Dialogue: 0,0:00:01.00,0:00:01.00,S,,0,0,0,,Hello, world, foo'' @ [CHR 0x0A])
     = Some \<lparr>readOrder = None, layer = ''0:00:01.00'', style = ''0:00:01.00'', name = ''S'',
             marginL = [], marginR = ''0'', marginV = ''0'', effect = ''0'',
             dialogueText = '',Hello, world, foo'' @ [CHR 0x0A]\<rparr>"
    by (simp add: parseAssBlockPayload_def parseInt10_def isSpace_def isDigit_def
        eval_nat_numeral)
qed

section \<open>The range reader\<close>

lemma read_counters:
  "requestCount r \<le> requestCount (snd (read fetchFn r offset len))
   \<and> bytesDownloaded r \<le> bytesDownloaded (snd (read fetchFn r offset len))"
  by (auto simp: read_def Let_def split: option.splits sum.splits if_splits)

lemma readAll_counters:
  "requestCount r \<le> requestCount (readAll r ops) \<and> bytesDownloaded r \<le> bytesDownloaded (readAll r ops)"
proof (induction ops arbitrary: r)
  case Nil
  then show ?case by simp
next
  case (Cons op ops)
  obtain fetchFn offset len where op: "op = (fetchFn, offset, len)" by (cases op)
  from read_counters[of r fetchFn offset len] Cons.IH[of "snd (read fetchFn r offset len)"]
  show ?case by (simp add: op)
qed

lemma readAll_append: "readAll r (ops1 @ ops2) = readAll (readAll r ops1) ops2"
  by (induction ops1 arbitrary: r) auto

lemma read_fullBuffer: "fullBuffer r \<noteq> None \<Longrightarrow> snd (read fetchFn r offset len) = r"
  by (auto simp: read_def)

lemma readAll_fullBuffer: "fullBuffer r \<noteq> None \<Longrightarrow> readAll r ops = r"
  by (induction ops arbitrary: r) (auto simp: read_fullBuffer)

lemma init_counters:
  assumes "init fetchFn (newRangeReader u allowFull hdrs) = (res, r)"
  shows "1 \<le> requestCount r" "0 \<le> bytesDownloaded r"
  using assms
  by (auto simp: init_def newRangeReader_def Let_def split: sum.splits option.splits if_splits)

lemma init_fullBuffer:
  assumes "init fetchFn (newRangeReader u allowFull hdrs) = (Inr (), r)" "fullBuffer r = Some full"
  shows "bytesDownloaded r = fileSize r" "fileSize r = int (length full)"
  using assms
  by (auto simp: init_def newRangeReader_def Let_def split: sum.splits option.splits if_splits)

text \<open>
  Claim C7, as the code has it. For every sequence of reads after a successful \<open>init\<close> of
  a new reader, whatever the server answers: \<open>requestCount\<close> and \<open>bytesDownloaded\<close> start
  at 1 or more and at 0 or more and never decrease from one operation to the next; and
  after the full-download fallback (the reader holds a full buffer) \<open>bytesDownloaded\<close>
  equals the file size, which is the length of that buffer, after any number of reads.
  With Range support there is no bound by the file size: every cache miss adds the
  length of the body received.
\<close>

theorem reader_counters_monotone_full_download_exact:
  assumes "init fetchFn (newRangeReader u allowFull hdrs) = (Inr (), r)"
  shows "1 \<le> requestCount r \<and> 0 \<le> bytesDownloaded r
       \<and> requestCount (readAll r ops1) \<le> requestCount (readAll r (ops1 @ ops2))
       \<and> bytesDownloaded (readAll r ops1) \<le> bytesDownloaded (readAll r (ops1 @ ops2))
       \<and> (case fullBuffer r of
            None \<Rightarrow> True
          | Some full \<Rightarrow>
              bytesDownloaded (readAll r ops1) = fileSize (readAll r ops1)
              \<and> fileSize (readAll r ops1) = int (length full))"
proof -
  have "1 \<le> requestCount r" "0 \<le> bytesDownloaded r"
    using init_counters[OF assms] by simp_all
  moreover have "requestCount (readAll r ops1) \<le> requestCount (readAll r (ops1 @ ops2))"
    "bytesDownloaded (readAll r ops1) \<le> bytesDownloaded (readAll r (ops1 @ ops2))"
    using readAll_counters[of "readAll r ops1" ops2] by (simp_all add: readAll_append)
  moreover have "bytesDownloaded (readAll r ops1) = fileSize (readAll r ops1)
              \<and> fileSize (readAll r ops1) = int (length full)" if "fullBuffer r = Some full" for full
    using that init_fullBuffer[OF assms that] by (simp add: readAll_fullBuffer)
  ultimately show ?thesis by (simp split: option.splits)
qed

lemma init_plainServer:
  "init (plainServer file) (newRangeReader u (Some True) None)
     = (Inr (), \<lparr>url = u, fileSize = int (length file), fullBuffer = Some file,
                 allowFullDownload = True, customHeaders = [],
                 bytesDownloaded = int (length file), requestCount = 1, cacheOffset = - 1,
                 cacheBuffer = None\<rparr>)"
  by (simp add: init_def newRangeReader_def plainServer_def)

text \<open>
  The theorem at a server without Range support that holds the three bytes 1, 2, 3, with
  full download allowed: after \<open>init\<close> and the reads (0, 2) and (1, 5) the reader has
  downloaded 3 bytes in 1 request.
\<close>

theorem reader_counters_monotone_full_download_exact_witness:
  "init (plainServer [1, 2, 3]) (newRangeReader ''http://host/a.mkv'' (Some True) None)
     = (Inr (), \<lparr>url = ''http://host/a.mkv'', fileSize = 3, fullBuffer = Some [1, 2, 3],
                 allowFullDownload = True, customHeaders = [],
                 bytesDownloaded = 3, requestCount = 1, cacheOffset = - 1, cacheBuffer = None\<rparr>)
   \<and> bytesDownloaded
        (readAll \<lparr>url = ''http://host/a.mkv'', fileSize = 3, fullBuffer = Some [1, 2, 3],
                 allowFullDownload = True, customHeaders = [],
                 bytesDownloaded = 3, requestCount = 1, cacheOffset = - 1, cacheBuffer = None\<rparr>
           [(plainServer [1, 2, 3], 0, 2), (plainServer [1, 2, 3], 1, 5)]) = 3
   \<and> requestCount
        (readAll \<lparr>url = ''http://host/a.mkv'', fileSize = 3, fullBuffer = Some [1, 2, 3],
                 allowFullDownload = True, customHeaders = [],
                 bytesDownloaded = 3, requestCount = 1, cacheOffset = - 1, cacheBuffer = None\<rparr>
           [(plainServer [1, 2, 3], 0, 2), (plainServer [1, 2, 3], 1, 5)]) = 1"
proof -
  let ?r = "\<lparr>url = ''http://host/a.mkv'', fileSize = 3, fullBuffer = Some [1, 2, 3],
                 allowFullDownload = True, customHeaders = [],
                 bytesDownloaded = 3, requestCount = 1, cacheOffset = - 1, cacheBuffer = None\<rparr>"
  have h: "init (plainServer [1, 2, 3]) (newRangeReader ''http://host/a.mkv'' (Some True) None)
             = (Inr (), ?r)"
    using init_plainServer[of "[1, 2, 3]" "''http://host/a.mkv''"] by simp
  have c: "requestCount (readAll ?r [(plainServer [1, 2, 3], 0, 2), (plainServer [1, 2, 3], 1, 5)]) = 1"
    by (simp add: read_def)
  from reader_counters_monotone_full_download_exact
         [OF h, of "[(plainServer [1, 2, 3], 0, 2), (plainServer [1, 2, 3], 1, 5)]" "[]"] h c
  show ?thesis by simp
qed

lemma contentRange_300000:
  "matchContentRangeHere ''bytes 0-262143/300000'' = Some ''300000''"
  by (simp add: matchContentRangeHere_def isSpace_def isDigit_def)

lemma showInt_examples:
  "showInt 0 = ''0''" "showInt 262143 = ''262143''" "showInt 300000 = ''300000''"
  by (simp_all add: showInt_def showNat.simps digitChar_def)

lemma zeroFileServer_probe:
  "zeroFileServer 300000 \<lparr>req_url = u, req_method = m, req_headers = h, req_range = Some (0, 262143)\<rparr>
     = Inr \<lparr>status = 206, contentRange = Some ''bytes 0-262143/300000'', body = replicate 262144 0\<rparr>"
  by (simp add: zeroFileServer_def showInt_examples)

lemma init_zeroFileServer:
  "init (zeroFileServer 300000) (newRangeReader u None None)
     = (Inr (), \<lparr>url = u, fileSize = 300000, fullBuffer = None, allowFullDownload = False,
                 customHeaders = [], bytesDownloaded = 262144, requestCount = 1,
                 cacheOffset = 0, cacheBuffer = Some (replicate 262144 0)\<rparr>)"
  by (simp add: init_def newRangeReader_def zeroFileServer_probe contentRange_300000
      digitsValue_def digitValue_def)

text \<open>
  Claim C7 as stated fails with Range support. The server holds 300000 bytes and honours
  Range. \<open>init\<close> downloads the first 262144 bytes; the read (270000, 10) misses the cache
  and downloads the last 30000 bytes; the read (0, 10) misses the cache, which now holds
  the end of the file, and downloads 32768 bytes again: 324912 bytes in 3 requests, more
  than the file size.
\<close>

theorem bytesDownloaded_exceeds_fileSize_counterexample:
  "init (zeroFileServer 300000) (newRangeReader ''http://host/a.mkv'' None None)
     = (Inr (), \<lparr>url = ''http://host/a.mkv'', fileSize = 300000, fullBuffer = None,
                 allowFullDownload = False, customHeaders = [], bytesDownloaded = 262144,
                 requestCount = 1, cacheOffset = 0, cacheBuffer = Some (replicate 262144 0)\<rparr>)
   \<and> bytesDownloaded
        (readAll \<lparr>url = ''http://host/a.mkv'', fileSize = 300000, fullBuffer = None,
                 allowFullDownload = False, customHeaders = [], bytesDownloaded = 262144,
                 requestCount = 1, cacheOffset = 0, cacheBuffer = Some (replicate 262144 0)\<rparr>
           [(zeroFileServer 300000, 270000, 10), (zeroFileServer 300000, 0, 10)]) = 324912
   \<and> fileSize
        (readAll \<lparr>url = ''http://host/a.mkv'', fileSize = 300000, fullBuffer = None,
                 allowFullDownload = False, customHeaders = [], bytesDownloaded = 262144,
                 requestCount = 1, cacheOffset = 0, cacheBuffer = Some (replicate 262144 0)\<rparr>
           [(zeroFileServer 300000, 270000, 10), (zeroFileServer 300000, 0, 10)]) = 300000"
proof (intro conjI)
  show "init (zeroFileServer 300000) (newRangeReader ''http://host/a.mkv'' None None)
     = (Inr (), \<lparr>url = ''http://host/a.mkv'', fileSize = 300000, fullBuffer = None,
                 allowFullDownload = False, customHeaders = [], bytesDownloaded = 262144,
                 requestCount = 1, cacheOffset = 0, cacheBuffer = Some (replicate 262144 0)\<rparr>)"
    by (rule init_zeroFileServer)
qed (simp_all add: read_def zeroFileServer_def READ_AHEAD_SIZE_def Let_def)

section \<open>Timestamps and durations of the blocks\<close>

lemma bindR_InrE:
  assumes "bindR m f = (Inr y, r)"
  obtains x r1 where "m = (Inr x, r1)" "f x r1 = (Inr y, r)"
  using assms by (auto simp: bindR_def split: prod.splits sum.splits)







































section \<open>The range-not-supported error\<close>

lemma init_probe:
  assumes "fetchFn \<lparr>req_url = u, req_method = Some ''GET'',
                     req_headers = (case hdrs of None \<Rightarrow> [] | Some h \<Rightarrow> h),
                     req_range = Some (0, 262143)\<rparr> = Inr response"
  shows "(\<exists>msg. fst (init fetchFn (newRangeReader u allowFull hdrs)) = Inl (RangeNotSupportedError msg))
           = (status response \<noteq> 206 \<and> allowFull \<noteq> Some True)"
    and "status response \<noteq> 206 \<and> allowFull \<noteq> Some True
         \<Longrightarrow> fst (init fetchFn (newRangeReader u allowFull hdrs)) = Inl (newRangeNotSupportedError u)"
  using assms
  by (auto simp: init_def newRangeReader_def newRangeNotSupportedError_def Let_def
      split: option.splits sum.splits)

lemma init_rejected:
  assumes "fetchFn \<lparr>req_url = u, req_method = Some ''GET'',
                     req_headers = (case hdrs of None \<Rightarrow> [] | Some h \<Rightarrow> h),
                     req_range = Some (0, 262143)\<rparr> = Inl e"
  shows "fst (init fetchFn (newRangeReader u allowFull hdrs)) = Inl (FetchRejected e)"
  using assms by (simp add: init_def newRangeReader_def)

text \<open>
  Claim C6, as the code has it. \<open>init\<close> on a new reader throws a
  \<open>RangeNotSupportedError\<close> exactly when the probe for the first 256 KiB is answered
  with a status other than 206 while \<open>allowFullDownload\<close> is not true, whether that status
  is 200 or not. The error is then the one built from the URL, whose message holds the
  URL verbatim, and \<open>extractSubtitles\<close> fails with it.
\<close>

theorem range_not_supported_iff_not_206_without_full_download:
  "(\<exists>msg. fst (init fetchFn (newRangeReader u (opt_allowFullDownload options) (opt_headers options)))
            = Inl (RangeNotSupportedError msg))
     = (\<exists>response.
          fetchFn \<lparr>req_url = u, req_method = Some ''GET'',
                    req_headers = (case opt_headers options of None \<Rightarrow> [] | Some h \<Rightarrow> h),
                    req_range = Some (0, 256 * 1024 - 1)\<rparr> = Inr response
          \<and> status response \<noteq> 206 \<and> opt_allowFullDownload options \<noteq> Some True)
   \<and> ((\<exists>msg. fst (init fetchFn (newRangeReader u (opt_allowFullDownload options)
                                  (opt_headers options)))
               = Inl (RangeNotSupportedError msg))
        \<longrightarrow> fst (init fetchFn (newRangeReader u (opt_allowFullDownload options)
                                (opt_headers options)))
              = Inl (newRangeNotSupportedError u)
            \<and> fst (extractSubtitles P fetchFn u options) = Inl (newRangeNotSupportedError u)
            \<and> (\<exists>pre post. newRangeNotSupportedError u = RangeNotSupportedError (pre @ u @ post)))"
proof -
  let ?init = "init fetchFn (newRangeReader u (opt_allowFullDownload options) (opt_headers options))"
  let ?probe = "fetchFn \<lparr>req_url = u, req_method = Some ''GET'',
                    req_headers = (case opt_headers options of None \<Rightarrow> [] | Some h \<Rightarrow> h),
                    req_range = Some (0, 256 * 1024 - 1)\<rparr>"
  have iff: "(\<exists>msg. fst ?init = Inl (RangeNotSupportedError msg))
     = (\<exists>response. ?probe = Inr response
          \<and> status response \<noteq> 206 \<and> opt_allowFullDownload options \<noteq> Some True)"
  proof (cases ?probe)
    case (Inl e)
    with init_rejected[of fetchFn u "opt_headers options" e "opt_allowFullDownload options"]
    show ?thesis by simp
  next
    case (Inr response)
    with init_probe(1)[of fetchFn u "opt_headers options" response "opt_allowFullDownload options"]
    show ?thesis by simp
  qed
  have "fst ?init = Inl (newRangeNotSupportedError u)
        \<and> fst (extractSubtitles P fetchFn u options) = Inl (newRangeNotSupportedError u)"
    if "\<exists>msg. fst ?init = Inl (RangeNotSupportedError msg)"
  proof -
    from that iff obtain response where "?probe = Inr response"
      "status response \<noteq> 206 \<and> opt_allowFullDownload options \<noteq> Some True" by blast
    with init_probe(2)[of fetchFn u "opt_headers options" response "opt_allowFullDownload options"]
    have i: "fst ?init = Inl (newRangeNotSupportedError u)" by simp
    then obtain r where "?init = (Inl (newRangeNotSupportedError u), r)"
      by (cases ?init) simp
    then have "fst (extractSubtitles P fetchFn u options) = Inl (newRangeNotSupportedError u)"
      by (simp add: extractSubtitles_def bindR_def)
    with i show ?thesis by simp
  qed
  moreover have "\<exists>pre post. newRangeNotSupportedError u = RangeNotSupportedError (pre @ u @ post)"
    unfolding newRangeNotSupportedError_def by (metis append.assoc)
  ultimately show ?thesis using iff by blast
qed

text \<open>
  The theorem at a server without Range support (status 200 for every request) and no
  options: \<open>extractSubtitles\<close> fails with the error that carries the URL.
\<close>

theorem range_not_supported_iff_not_206_without_full_download_witness:
  "fst (init (plainServer [1, 2, 3]) (newRangeReader ''http://host/a.mkv'' None None))
     = Inl (newRangeNotSupportedError ''http://host/a.mkv'')
   \<and> fst (extractSubtitles latin1 (plainServer [1, 2, 3]) ''http://host/a.mkv'' noOptions)
     = Inl (newRangeNotSupportedError ''http://host/a.mkv'')"
proof -
  have "fst (init (plainServer [1, 2, 3])
               (newRangeReader ''http://host/a.mkv'' (opt_allowFullDownload noOptions)
                  (opt_headers noOptions)))
          = Inl (newRangeNotSupportedError ''http://host/a.mkv'')"
    by (simp add: init_def newRangeReader_def plainServer_def noOptions_def)
  with range_not_supported_iff_not_206_without_full_download
         [of "plainServer [1, 2, 3]" "''http://host/a.mkv''" noOptions latin1]
  show ?thesis by (simp add: noOptions_def newRangeNotSupportedError_def)
qed

text \<open>
  Claim C6 as stated fails. The server answers every request with status 404, which is
  neither 206 nor 200, and full download is allowed: \<open>init\<close> does not throw; it sends a
  second request without a Range header and takes its body as the file.
\<close>

theorem init_status_404_full_download_counterexample:
  "init (statusServer 404) (newRangeReader ''http://host/a.mkv'' (Some True) None)
     = (Inr (), \<lparr>url = ''http://host/a.mkv'', fileSize = 0, fullBuffer = Some [],
                 allowFullDownload = True, customHeaders = [], bytesDownloaded = 0,
                 requestCount = 2, cacheOffset = - 1, cacheBuffer = None\<rparr>)"
  by (simp add: init_def statusServer_def newRangeReader_def)

section \<open>The language filter\<close>

lemma filterTracks_empty: "filterTracks (Some []) subtitleTracks = filterTracks None subtitleTracks"
  by (simp add: filterTracks_def)

lemma extractTracks_empty_languages:
  "extractTracks P fetchFn reader seg (options\<lparr>opt_languages := Some []\<rparr>) subtitleTracks
     = extractTracks P fetchFn reader seg (options\<lparr>opt_languages := None\<rparr>) subtitleTracks"
  by (simp add: extractTracks_def filterTracks_def)

lemma extractTracks_all:
  assumes "fst (extractTracks P fetchFn reader seg options subtitleTracks) = Inr results"
    and "filterTracks (opt_languages options) subtitleTracks = subtitleTracks"
  shows "map meta_trackNumber results = map ti_trackNumber subtitleTracks"
proof (cases "length subtitleTracks = 0")
  case True
  with assms(1) show ?thesis by (simp add: extractTracks_def)
next
  case False
  from assms(1) have "extractTracks P fetchFn reader seg options subtitleTracks
      = (Inr results, snd (extractTracks P fetchFn reader seg options subtitleTracks))"
    by (metis prod.collapse)
  with False assms(2) obtain fonts blocks where
    "results = map (trackResult P fonts blocks) subtitleTracks"
    unfolding extractTracks_def Let_def
    by (auto elim!: bindR_InrE)
  then show ?thesis by (simp add: trackResult_def Let_def comp_def)
qed

text \<open>
  Claim C10. With \<open>languages\<close> the empty list the filter keeps every subtitle track, and
  \<open>extractSubtitles\<close> returns what it returns with \<open>languages\<close> omitted, also in the
  state of the reader. The results that \<open>extractTracks\<close> then returns are one for each
  subtitle track, in order.
\<close>

theorem empty_languages_extracts_every_track:
  "filterTracks (Some []) subtitleTracks = subtitleTracks
   \<and> filterTracks (Some []) subtitleTracks = filterTracks None subtitleTracks
   \<and> extractSubtitles P fetchFn u (options\<lparr>opt_languages := Some []\<rparr>)
       = extractSubtitles P fetchFn u (options\<lparr>opt_languages := None\<rparr>)
   \<and> (fst (extractTracks P fetchFn reader seg (options\<lparr>opt_languages := Some []\<rparr>)
              subtitleTracks) = Inr results
        \<longrightarrow> map meta_trackNumber results = map ti_trackNumber subtitleTracks)"
proof -
  have f: "filterTracks (Some []) subtitleTracks = subtitleTracks"
    by (simp add: filterTracks_def)
  have "extractSubtitles P fetchFn u (options\<lparr>opt_languages := Some []\<rparr>)
       = extractSubtitles P fetchFn u (options\<lparr>opt_languages := None\<rparr>)"
    unfolding extractSubtitles_def extractTracks_empty_languages by simp
  moreover have "map meta_trackNumber results = map ti_trackNumber subtitleTracks"
    if "fst (extractTracks P fetchFn reader seg (options\<lparr>opt_languages := Some []\<rparr>)
              subtitleTracks) = Inr results"
    using extractTracks_all[OF that] f by simp
  ultimately show ?thesis using f filterTracks_empty by simp
qed

text \<open>
  The theorem at the example file, whose one subtitle track has no language, with
  \<open>languages\<close> the empty list: the track is extracted.
\<close>

theorem empty_languages_extracts_every_track_witness:
  "fst (extractTracks latin1 (fileServer (exampleFile 100 0 0))
          (snd (init (fileServer (exampleFile 100 0 0))
                  (newRangeReader ''http://host/a.mkv'' None None)))
          \<lparr>segmentDataOffset = 10, segmentDataSize = 83,
           seekEntries = [\<lparr>seek_id = TRACKS, position = Some 38\<rparr>,
                          \<lparr>seek_id = CLUSTER, position = Some 64\<rparr>],
           info = \<lparr>timestampScale = Some 1000000\<rparr>\<rparr>
          (noOptions\<lparr>opt_languages := Some []\<rparr>)
          [\<lparr>ti_trackNumber = Some 1, codecId = ''S_TEXT/UTF8'', codecPrivate = None,
            language = None, trackName = None, defaultDuration = None\<rparr>])
     = Inr [\<lparr>tr_type = srt, meta_trackNumber = Some 1, meta_language = None,
             meta_trackName = None, out_fonts = None,
             out_subtitle = map (\<lambda>c. of_nat (of_char c))
               (''1'' @ [CHR 0x0A] @ ''00:00:00,100 --> 00:00:00,100'' @ [CHR 0x0A]
                @ ''Hello'' @ [CHR 0x0A])\<rparr>]
   \<and> map meta_trackNumber
         [\<lparr>tr_type = srt, meta_trackNumber = Some 1, meta_language = None,
           meta_trackName = None, out_fonts = None,
           out_subtitle = map (\<lambda>c. of_nat (of_char c))
             (''1'' @ [CHR 0x0A] @ ''00:00:00,100 --> 00:00:00,100'' @ [CHR 0x0A]
              @ ''Hello'' @ [CHR 0x0A])\<rparr>]
       = [Some (1::int)]"
proof -
  let ?res = "[\<lparr>tr_type = srt, meta_trackNumber = Some 1, meta_language = None,
             meta_trackName = None, out_fonts = None,
             out_subtitle = map (\<lambda>c. of_nat (of_char c))
               (''1'' @ [CHR 0x0A] @ ''00:00:00,100 --> 00:00:00,100'' @ [CHR 0x0A]
                @ ''Hello'' @ [CHR 0x0A])\<rparr>]"
  have e: "fst (extractTracks latin1 (fileServer (exampleFile 100 0 0))
          (snd (init (fileServer (exampleFile 100 0 0))
                  (newRangeReader ''http://host/a.mkv'' None None)))
          \<lparr>segmentDataOffset = 10, segmentDataSize = 83,
           seekEntries = [\<lparr>seek_id = TRACKS, position = Some 38\<rparr>,
                          \<lparr>seek_id = CLUSTER, position = Some 64\<rparr>],
           info = \<lparr>timestampScale = Some 1000000\<rparr>\<rparr>
          (noOptions\<lparr>opt_languages := Some []\<rparr>)
          [\<lparr>ti_trackNumber = Some 1, codecId = ''S_TEXT/UTF8'', codecPrivate = None,
            language = None, trackName = None, defaultDuration = None\<rparr>])
     = Inr ?res"
    by code_simp
  from empty_languages_extracts_every_track
         [of "[\<lparr>ti_trackNumber = Some 1, codecId = ''S_TEXT/UTF8'', codecPrivate = None,
                language = None, trackName = None, defaultDuration = None\<rparr>]"
             latin1 "fileServer (exampleFile 100 0 0)" "''http://host/a.mkv''" noOptions
             "snd (init (fileServer (exampleFile 100 0 0))
                     (newRangeReader ''http://host/a.mkv'' None None))"
             "\<lparr>segmentDataOffset = 10, segmentDataSize = 83,
               seekEntries = [\<lparr>seek_id = TRACKS, position = Some 38\<rparr>,
                              \<lparr>seek_id = CLUSTER, position = Some 64\<rparr>],
               info = \<lparr>timestampScale = Some 1000000\<rparr>\<rparr>"
             ?res] e
  show ?thesis by simp
qed

end
